theory Spec2Isabelle
  imports Complex_Main
begin

section \<open>The chat widget controller of chatbot.js\<close>

text \<open>
  A shallow embedding of the class \<open>ReusableChatbot\<close> of \<^verbatim>\<open>src/chatbot.js\<close>:
  response resolution (\<open>getBotResponse\<close>), the message lifecycle (\<open>sendMessage\<close>,
  \<open>addMessage\<close>), persistence (\<open>saveMessageHistory\<close>, \<open>loadMessageHistory\<close>),
  initialisation and reset (\<open>init\<close>, \<open>clearHistory\<close>, \<open>refreshChat\<close>) and \<open>getStats\<close>.

  Conventions of the model.
  \<^item> A JavaScript string is a list of code units. The model has the 256 code units
    U+0000 to U+00FF (the type \<open>char\<close>); \<open>toLowerCase\<close> and \<open>trim\<close> are the JavaScript
    functions restricted to that range.
  \<^item> A value of unknown shape (the body of the remote reply, a message of the history
    or of the stored snapshot, the content of a message) is a \<open>jsval\<close>.
  \<^item> What is written to the store is read back through \<open>JSON.parse\<close>: the stored item is
    the value after \<open>JSON.stringify\<close> and \<open>JSON.parse\<close> (\<open>jsonRoundTrip\<close>).
  \<^item> The clock (\<open>new Date()\<close>), the generated message id, the outcome of \<open>fetch\<close> and
    whether \<open>localStorage.setItem\<close> succeeds are inputs of the operations.
  \<^item> An object is the list of its properties, each key once, in the order of their
    definition.
  \<^item> An exception is a value \<open>Inl e\<close> of a sum type; a \<^verbatim>\<open>try\<close>/\<^verbatim>\<open>catch\<close> of the source
    is a case distinction on it.
  \<^item> \<open>sendMessage\<close> is taken as one step up to the scheduling of the reply; what else may
    happen while it awaits the remote call is not interleaved with it.
\<close>

subsection \<open>Strings\<close>

text \<open>\<open>String.prototype.toLowerCase\<close> on U+0000..U+00FF: A-Z and the Latin-1 capitals
  U+00C0..U+00DE (without the multiplication sign U+00D7) move up by 32.\<close>

definition lowerChar :: "char \<Rightarrow> char" where
  "lowerChar c =
     (let n = (of_char c :: nat)
      in if (65 \<le> n \<and> n \<le> 90) \<or> (192 \<le> n \<and> n \<le> 222 \<and> n \<noteq> 215)
         then char_of (n + 32) else c)"

definition toLowerCase :: "string \<Rightarrow> string" where
  "toLowerCase s = map lowerChar s"

text \<open>\<open>String.prototype.trim\<close>: white space and line terminators of U+0000..U+00FF are
  TAB, LF, VT, FF, CR, SPACE and the no-break space U+00A0.\<close>

definition isWhiteSpace :: "char \<Rightarrow> bool" where
  "isWhiteSpace c = ((of_char c :: nat) \<in> {9, 10, 11, 12, 13, 32, 160})"

definition trim :: "string \<Rightarrow> string" where
  "trim s = rev (dropWhile isWhiteSpace (rev (dropWhile isWhiteSpace s)))"

fun startsWith :: "string \<Rightarrow> string \<Rightarrow> bool" where
  "startsWith s [] = True"
| "startsWith [] (k # ks) = False"
| "startsWith (c # s) (k # ks) = (c = k \<and> startsWith s ks)"

text \<open>\<open>s.includes(k)\<close>: \<open>k\<close> occurs in \<open>s\<close> as a contiguous run of code units.\<close>

fun includesStr :: "string \<Rightarrow> string \<Rightarrow> bool" where
  "includesStr [] k = startsWith [] k"
| "includesStr (c # s) k = (startsWith (c # s) k \<or> includesStr s k)"

text \<open>The first occurrence of \<open>pat\<close> in \<open>s\<close>, as the text preceding it and the text following it
  (\<open>StringIndexOf\<close> from position 0).\<close>

fun splitAtFirst :: "string \<Rightarrow> string \<Rightarrow> (string \<times> string) option" where
  "splitAtFirst pat [] = (if pat = [] then Some ([], []) else None)"
| "splitAtFirst pat (c # s) =
     (if startsWith (c # s) pat then Some ([], drop (length pat) (c # s))
      else (case splitAtFirst pat s of
              None \<Rightarrow> None
            | Some (preceding, following) \<Rightarrow> Some (c # preceding, following)))"

text \<open>\<open>GetSubstitution\<close> for a string pattern (no captures): in the replacement text
  \<^verbatim>\<open>$$\<close> is a dollar sign, \<^verbatim>\<open>$&\<close> the matched text, \<^verbatim>\<open>$`\<close> the text preceding the match,
  \<^verbatim>\<open>$'\<close> the text following it; any other \<^verbatim>\<open>$\<close> stands for itself.\<close>

fun getSubstitution :: "string \<Rightarrow> string \<Rightarrow> string \<Rightarrow> string \<Rightarrow> string" where
  "getSubstitution matched preceding following [] = []"
| "getSubstitution matched preceding following [c] = [c]"
| "getSubstitution matched preceding following (c # d # rest) =
     (if c = CHR ''$'' then
        (if d = CHR ''$'' then CHR ''$'' # getSubstitution matched preceding following rest
         else if d = CHR ''&'' then matched @ getSubstitution matched preceding following rest
         else if d = CHR ''`'' then preceding @ getSubstitution matched preceding following rest
         else if d = CHR 0x27 then following @ getSubstitution matched preceding following rest
         else c # getSubstitution matched preceding following (d # rest))
      else c # getSubstitution matched preceding following (d # rest))"

text \<open>\<open>template.replace(pat, replacement)\<close> with a string pattern: only the first
  occurrence is replaced, and the replacement text goes through \<open>getSubstitution\<close>.\<close>

definition replace :: "string \<Rightarrow> string \<Rightarrow> string \<Rightarrow> string" where
  "replace template pat replacement =
     (case splitAtFirst pat template of
        None \<Rightarrow> template
      | Some (preceding, following) \<Rightarrow>
          preceding @ getSubstitution pat preceding following replacement @ following)"

subsection \<open>Values and property access\<close>

text \<open>A number is a double: a finite value (written as a rational; \<open>Finite 0\<close> is
  \<open>+0\<close>), negative zero, an infinity or \<open>NaN\<close>. \<open>JSON.parse\<close> yields \<open>PosInfinity\<close> for a
  numeral such as \<^verbatim>\<open>1e400\<close>.\<close>

datatype jsnum = Finite rat | NegZero | PosInfinity | NegInfinity | NaN

text \<open>\<open>JDate t\<close> is a \<open>Date\<close> object for the instant \<open>t\<close>, in milliseconds since the
  epoch.\<close>

datatype jsval =
    JNull
  | JBool bool
  | JNum jsnum
  | JStr string
  | JDate int
  | JArr "jsval list"
  | JObj "(string \<times> jsval) list"

datatype js_error = TypeError

text \<open>\<open>v.k\<close>: reading a property of \<open>null\<close> throws; a primitive, a \<open>Date\<close> or an array has
  none of the properties read here; \<open>None\<close> is \<open>undefined\<close>.\<close>

fun getProp :: "jsval \<Rightarrow> string \<Rightarrow> js_error + jsval option" where
  "getProp JNull k = Inl TypeError"
| "getProp (JObj kvs) k = Inr (map_of kvs k)"
| "getProp v k = Inr None"

fun truthy :: "jsval \<Rightarrow> bool" where
  "truthy JNull = False"
| "truthy (JBool b) = b"
| "truthy (JNum n) = (n \<noteq> Finite 0 \<and> n \<noteq> NegZero \<and> n \<noteq> NaN)"
| "truthy (JStr s) = (s \<noteq> [])"
| "truthy v = True"

subsection \<open>Serialisation\<close>

text \<open>\<open>Date.prototype.toISOString\<close>: \<^verbatim>\<open>YYYY-MM-DDTHH:mm:ss.sssZ\<close> in UTC, with a sign and
  six digits for a year outside 0 to 9999. \<open>civilFromDays\<close> turns a count of days since
  the epoch into year, month and day of the proleptic Gregorian calendar.\<close>

definition digitChar :: "int \<Rightarrow> char" where
  "digitChar d = char_of (48 + d mod 10)"

definition pad2 :: "int \<Rightarrow> string" where
  "pad2 n = [digitChar (n div 10), digitChar n]"

definition pad3 :: "int \<Rightarrow> string" where
  "pad3 n = digitChar (n div 100) # pad2 n"

definition pad4 :: "int \<Rightarrow> string" where
  "pad4 n = digitChar (n div 1000) # pad3 n"

definition pad6 :: "int \<Rightarrow> string" where
  "pad6 n = digitChar (n div 100000) # digitChar (n div 10000) # pad4 n"

definition civilFromDays :: "int \<Rightarrow> int \<times> int \<times> int" where
  "civilFromDays z =
     (let z' = z + 719468;
          era = z' div 146097;
          doe = z' - era * 146097;
          yoe = (doe - doe div 1460 + doe div 36524 - doe div 146096) div 365;
          doy = doe - (365 * yoe + yoe div 4 - yoe div 100);
          mp = (5 * doy + 2) div 153;
          d = doy - (153 * mp + 2) div 5 + 1;
          m = (if mp < 10 then mp + 3 else mp - 9);
          y = yoe + era * 400 + (if m \<le> 2 then 1 else 0)
      in (y, m, d))"

definition toISOString :: "int \<Rightarrow> string" where
  "toISOString t =
     (let (y, m, d) = civilFromDays (t div 86400000);
          msOfDay = t mod 86400000;
          year = (if 0 \<le> y \<and> y \<le> 9999 then pad4 y
                  else (if y < 0 then CHR ''-'' else CHR ''+'') # pad6 \<bar>y\<bar>)
      in year @ ''-'' @ pad2 m @ ''-'' @ pad2 d @ ''T''
         @ pad2 (msOfDay div 3600000) @ '':''
         @ pad2 (msOfDay div 60000 mod 60) @ '':''
         @ pad2 (msOfDay div 1000 mod 60) @ ''.''
         @ pad3 (msOfDay mod 1000) @ ''Z'')"

text \<open>\<open>JSON.parse(JSON.stringify(v))\<close>: a \<open>Date\<close> becomes its ISO string (\<open>toJSON\<close>), an
  infinity and \<open>NaN\<close> become \<open>null\<close>, negative zero becomes zero; strings, booleans,
  \<open>null\<close> and finite numbers stay, arrays and objects are rendered element by element.
  The properties of an object are listed as before; their order is not observed on
  these values.\<close>

primrec jsonRoundTrip :: "jsval \<Rightarrow> jsval" where
  "jsonRoundTrip JNull = JNull"
| "jsonRoundTrip (JBool b) = JBool b"
| "jsonRoundTrip (JNum n) =
     (case n of
        Finite r \<Rightarrow> JNum (Finite r)
      | NegZero \<Rightarrow> JNum (Finite 0)
      | PosInfinity \<Rightarrow> JNull
      | NegInfinity \<Rightarrow> JNull
      | NaN \<Rightarrow> JNull)"
| "jsonRoundTrip (JStr s) = JStr s"
| "jsonRoundTrip (JDate t) = JStr (toISOString t)"
| "jsonRoundTrip (JArr xs) = JArr (map jsonRoundTrip xs)"
| "jsonRoundTrip (JObj kvs) = JObj (map (map_prod id jsonRoundTrip) kvs)"

subsection \<open>Configuration\<close>

record config =
  botName :: string
  welcomeMessage :: string
  apiEndpoint :: "string option"
  responses :: "(string \<times> string) list"
  typingDelay :: nat
  messageDelay :: nat
  autoOpen :: bool
  theme :: string

text \<open>\<open>responses\<close> lists the properties of the object in the order they were defined.
  \<open>Object.entries\<close> enumerates the keys that are array indices (canonical decimal
  numerals below \<open>2^32 - 1\<close>) first, in ascending numeric order, and then the other keys
  in definition order.\<close>

definition isDigit :: "char \<Rightarrow> bool" where
  "isDigit c = (48 \<le> (of_char c :: nat) \<and> (of_char c :: nat) \<le> 57)"

definition numericValue :: "string \<Rightarrow> nat" where
  "numericValue k = foldl (\<lambda>n c. 10 * n + ((of_char c :: nat) - 48)) 0 k"

definition isArrayIndex :: "string \<Rightarrow> bool" where
  "isArrayIndex k =
     (k \<noteq> [] \<and> list_all isDigit k \<and> (k = ''0'' \<or> hd k \<noteq> CHR ''0'')
      \<and> numericValue k < 2 ^ 32 - 1)"

definition Object_entries :: "(string \<times> 'v) list \<Rightarrow> (string \<times> 'v) list" where
  "Object_entries obj =
     sort_key (\<lambda>kv. numericValue (fst kv)) (filter (\<lambda>kv. isArrayIndex (fst kv)) obj)
     @ filter (\<lambda>kv. \<not> isArrayIndex (fst kv)) obj"

definition defaultConfig :: config where
  \<open>defaultConfig =
     \<lparr> botName = ''AI Assistant'',
       welcomeMessage = ''Hello! How can I help you today?'',
       apiEndpoint = None,
       responses =
         [(''hello'', ''Hello there! How can I assist you today?''),
          (''hi'', ''Hi! What can I help you with?''),
          (''help'', ''I'm here to help! You can ask me questions and I'll do my best to assist you.''),
          (''default'', ''I understand you're saying "{message}". How can I help you with that?'')],
       typingDelay = 1000,
       messageDelay = 500,
       autoOpen = False,
       theme = ''default'' \<rparr>\<close>

subsection \<open>Response resolution\<close>

text \<open>What \<open>await fetch(...)\<close> and \<open>await response.json()\<close> come to.\<close>

datatype api_outcome =
    FetchRejected
  | StatusNotOk
  | BodyNotJson
  | Body jsval

text \<open>The loop over \<open>Object.entries(this.config.responses)\<close>: \<open>Some\<close> is its
  \<^verbatim>\<open>return response\<close>, \<open>None\<close> is falling out of the loop.\<close>

fun keywordScan :: "(string \<times> string) list \<Rightarrow> string \<Rightarrow> string option" where
  "keywordScan [] lowerMessage = None"
| "keywordScan ((key, response) # entries) lowerMessage =
     (if key \<noteq> ''default'' \<and> includesStr lowerMessage key then Some response
      else keywordScan entries lowerMessage)"

text \<open>Lines 259 to 267: the predefined responses, then the default template.
  \<open>this.config.responses.default\<close> is \<open>undefined\<close> when the object has no such key, and
  \<open>undefined.replace\<close> throws.\<close>

definition localPolicy :: "config \<Rightarrow> string \<Rightarrow> js_error + jsval" where
  "localPolicy cfg message =
     (let lowerMessage = toLowerCase message
      in case keywordScan (Object_entries (responses cfg)) lowerMessage of
           Some response \<Rightarrow> Inr (JStr response)
         | None \<Rightarrow>
             (case map_of (responses cfg) ''default'' of
                None \<Rightarrow> Inl TypeError
              | Some template \<Rightarrow> Inr (JStr (replace template ''{message}'' message))))"

text \<open>\<open>x || y\<close> takes \<open>x\<close> when it is truthy; \<open>undefined\<close> is not.\<close>

definition truthyOpt :: "jsval option \<Rightarrow> bool" where
  "truthyOpt v = (case v of None \<Rightarrow> False | Some x \<Rightarrow> truthy x)"

text \<open>\<open>data.message || data.response || 'Sorry, I didn't understand that.'\<close>\<close>

definition pickReply :: "jsval \<Rightarrow> js_error + jsval" where
  "pickReply data =
     (case getProp data ''message'' of
        Inl e \<Rightarrow> Inl e
      | Inr m \<Rightarrow>
          (case (if truthyOpt m then m else None) of
             Some reply \<Rightarrow> Inr reply
           | None \<Rightarrow>
               (case getProp data ''response'' of
                  Inl e \<Rightarrow> Inl e
                | Inr r \<Rightarrow>
                    (case (if truthyOpt r then r else None) of
                       Some reply \<Rightarrow> Inr reply
                     | None \<Rightarrow> Inr (JStr ''Sorry, I didn't understand that.'')))))"

text \<open>\<open>if (this.config.apiEndpoint)\<close>: \<open>null\<close> and the empty string are falsy.\<close>

definition endpointConfigured :: "config \<Rightarrow> bool" where
  "endpointConfigured cfg =
     (case apiEndpoint cfg of None \<Rightarrow> False | Some url \<Rightarrow> url \<noteq> [])"

text \<open>\<open>getBotResponse(message)\<close>. Everything the \<^verbatim>\<open>try\<close> block throws is caught and leads to
  the predefined responses, as do a response that is not \<open>ok\<close> and a missing endpoint. The
  request body (the message and \<open>messageHistory.slice(-10)\<close>) does not influence the
  result and is not part of the model.\<close>

definition getBotResponse :: "config \<Rightarrow> api_outcome \<Rightarrow> string \<Rightarrow> js_error + jsval" where
  "getBotResponse cfg api message =
     (if endpointConfigured cfg then
        (case api of
           Body data \<Rightarrow>
             (case pickReply data of
                Inr reply \<Rightarrow> Inr reply
              | Inl e \<Rightarrow> localPolicy cfg message)
         | _ \<Rightarrow> localPolicy cfg message)
      else localPolicy cfg message)"

subsection \<open>Controller state\<close>

text \<open>What \<open>localStorage.getItem('reusable_chatbot_history')\<close>, \<open>JSON.parse\<close> and
  \<open>new Date(historyData.timestamp)\<close> make of the stored string.
  \<^item> \<open>NoItem\<close>: nothing is stored (\<open>getItem\<close> returns \<open>null\<close>, or the empty string).
  \<^item> \<open>Unreadable\<close>: \<open>JSON.parse\<close> throws, or it returns \<open>null\<close>, so that reading
    \<open>historyData.timestamp\<close> throws.
  \<^item> \<open>Parsed storedDate messages\<close>: \<open>storedDate\<close> is the instant of
    \<open>new Date(historyData.timestamp)\<close>, \<open>None\<close> for an invalid date (a missing timestamp
    among others); \<open>messages\<close> is \<open>None\<close> for a missing or falsy field \<open>messages\<close> and the
    elements of the array otherwise. A truthy \<open>messages\<close> that is not an array is outside
    the model.\<close>

datatype stored_item =
    NoItem
  | Unreadable
  | Parsed "int option" "jsval list option"

text \<open>Callbacks handed to \<open>setTimeout\<close> that have an effect on the state.\<close>

datatype timer = OpenChat | BotReply jsval

text \<open>\<open>rendered\<close> stands for the children of \<open>elements.messages\<close>, each element written as
  the message data it was made from. \<open>tracked\<close> is what \<open>trackEvent\<close> has logged.
  \<open>resolverCalls\<close> records the calls of \<open>getBotResponse\<close>; the source has no such
  field.\<close>

record chatbot =
  config :: config
  isOpen :: bool
  isTyping :: bool
  messageHistory :: "jsval list"
  inputValue :: string
  sendDisabled :: bool
  rendered :: "jsval list"
  storage :: stored_item
  writable :: bool
  timers :: "timer list"
  tracked :: "(string \<times> string option) list"
  resolverCalls :: "string list"

definition trackEvent :: "chatbot \<Rightarrow> string \<Rightarrow> string option \<Rightarrow> chatbot" where
  "trackEvent s eventName data = s\<lparr>tracked := tracked s @ [(eventName, data)]\<rparr>"

definition openChat :: "chatbot \<Rightarrow> chatbot" where
  "openChat s = trackEvent (s\<lparr>isOpen := True\<rparr>) ''chatbot_opened'' None"

definition closeChat :: "chatbot \<Rightarrow> chatbot" where
  "closeChat s = trackEvent (s\<lparr>isOpen := False\<rparr>) ''chatbot_closed'' None"

definition toggleChat :: "chatbot \<Rightarrow> chatbot" where
  "toggleChat s = (if isOpen s then closeChat s else openChat s)"

definition showTyping :: "chatbot \<Rightarrow> chatbot" where
  "showTyping s = s\<lparr>isTyping := True\<rparr>"

definition hideTyping :: "chatbot \<Rightarrow> chatbot" where
  "hideTyping s = s\<lparr>isTyping := False\<rparr>"

definition updateSendButton :: "chatbot \<Rightarrow> chatbot" where
  "updateSendButton s =
     (let hasText = (length (trim (inputValue s)) > 0)
      in s\<lparr>sendDisabled := \<not> hasText\<rparr>)"

subsection \<open>Persistence\<close>

text \<open>\<open>xs.slice(-n)\<close>: the last \<open>n\<close> elements, all of them when there are fewer.\<close>

definition sliceLast :: "nat \<Rightarrow> 'a list \<Rightarrow> 'a list" where
  "sliceLast n xs = drop (length xs - n) xs"

text \<open>\<open>saveMessageHistory()\<close>: the stored text is \<open>JSON.stringify\<close> of the last 50 messages
  and of \<open>new Date().toISOString()\<close>, so the item read back holds the messages after
  \<open>jsonRoundTrip\<close> and the instant \<open>now\<close>. When \<open>setItem\<close> throws (quota, storage not
  available) the \<^verbatim>\<open>catch\<close> only warns and the stored item stays as it was.\<close>

definition saveMessageHistory :: "chatbot \<Rightarrow> int \<Rightarrow> chatbot" where
  "saveMessageHistory s now =
     (if writable s
      then s\<lparr>storage :=
               Parsed (Some now) (Some (map jsonRoundTrip (sliceLast 50 (messageHistory s))))\<rparr>
      else s)"

text \<open>\<open>createMessageElement(messageData)\<close> starts by reading \<open>messageData.sender\<close>, which
  throws when the message data is \<open>null\<close>.\<close>

definition createMessageElement :: "jsval \<Rightarrow> js_error + jsval" where
  "createMessageElement messageData =
     (case getProp messageData ''sender'' of
        Inl e \<Rightarrow> Inl e
      | Inr sender \<Rightarrow> Inr messageData)"

text \<open>The \<open>forEach\<close> of \<open>renderMessageHistory\<close>: the elements appended before an exception
  stay in the document.\<close>

fun appendElements :: "jsval list \<Rightarrow> jsval list \<Rightarrow> jsval list \<times> js_error option" where
  "appendElements nodes [] = (nodes, None)"
| "appendElements nodes (messageData # rest) =
     (case createMessageElement messageData of
        Inl e \<Rightarrow> (nodes, Some e)
      | Inr messageElement \<Rightarrow> appendElements (nodes @ [messageElement]) rest)"

definition renderMessageHistory :: "chatbot \<Rightarrow> chatbot \<times> js_error option" where
  "renderMessageHistory s =
     (let (nodes, thrown) = appendElements [] (messageHistory s)
      in (s\<lparr>rendered := nodes\<rparr>, thrown))"

text \<open>\<open>(new Date() - storedDate) / (1000 * 60 * 60 * 24)\<close>. The source computes it in
  floating point; for instants within the range of \<open>Date\<close> the comparison with 7 has the
  same result as in exact arithmetic.\<close>

definition daysDiff :: "int \<Rightarrow> int \<Rightarrow> rat" where
  "daysDiff now storedDate = of_int (now - storedDate) / (1000 * 60 * 60 * 24)"

text \<open>\<open>loadMessageHistory()\<close>. The assignment to \<open>messageHistory\<close> comes before
  \<open>renderMessageHistory()\<close>, so it stays when the rendering throws into the \<^verbatim>\<open>catch\<close>.\<close>

definition loadMessageHistory :: "chatbot \<Rightarrow> int \<Rightarrow> chatbot" where
  "loadMessageHistory s now =
     (case storage s of
        NoItem \<Rightarrow> s
      | Unreadable \<Rightarrow> s
      | Parsed stamp messages \<Rightarrow>
          (case stamp of
             None \<Rightarrow> s
           | Some storedDate \<Rightarrow>
               (case messages of
                  None \<Rightarrow> s
                | Some msgs \<Rightarrow>
                    (if daysDiff now storedDate < 7
                     then fst (renderMessageHistory (s\<lparr>messageHistory := msgs\<rparr>))
                     else s))))"

subsection \<open>Message lifecycle\<close>

text \<open>\<open>addMessage(sender, content, timestamp = null)\<close>; \<open>now\<close> is \<open>new Date()\<close> and \<open>mid\<close>
  the result of \<open>generateMessageId()\<close>. The element made from a fresh message object is
  appended without exception. Scrolling and the unread count change nothing here.\<close>

definition messageObject :: "string \<Rightarrow> jsval \<Rightarrow> int \<Rightarrow> string \<Rightarrow> jsval" where
  "messageObject sender content timestamp mid =
     JObj [(''sender'', JStr sender),
           (''content'', content),
           (''timestamp'', JDate timestamp),
           (''id'', JStr mid)]"

definition addMessage ::
  "chatbot \<Rightarrow> string \<Rightarrow> jsval \<Rightarrow> int option \<Rightarrow> int \<Rightarrow> string \<Rightarrow> chatbot" where
  "addMessage s sender content timestamp now mid =
     (let messageData =
            messageObject sender content (case timestamp of None \<Rightarrow> now | Some t \<Rightarrow> t) mid;
          s1 = s\<lparr>messageHistory := messageHistory s @ [messageData]\<rparr>;
          s2 = saveMessageHistory s1 now
      in s2\<lparr>rendered := rendered s2 @ [messageData]\<rparr>)"

text \<open>\<open>init()\<close>, after the elements and the event handlers are bound.\<close>

definition init :: "chatbot \<Rightarrow> int \<Rightarrow> string \<Rightarrow> chatbot" where
  "init s now mid =
     (let s1 = loadMessageHistory s now;
          s2 = (if autoOpen (config s1) then s1\<lparr>timers := timers s1 @ [OpenChat]\<rparr> else s1)
      in if length (messageHistory s2) = 0
         then addMessage s2 ''bot'' (JStr (welcomeMessage (config s2))) None now mid
         else s2)"

text \<open>\<open>new ReusableChatbot(options)\<close> with the merged configuration \<open>cfg\<close>, on a page whose
  message list holds \<open>nodes\<close>, with \<open>stored\<close> in the store: \<open>blank\<close> is the state the
  constructor sets up before it calls \<open>init()\<close>.\<close>

definition blank :: "config \<Rightarrow> jsval list \<Rightarrow> stored_item \<Rightarrow> bool \<Rightarrow> chatbot" where
  "blank cfg nodes stored w =
     \<lparr> config = cfg, isOpen = False, isTyping = False, messageHistory = [],
       inputValue = [], sendDisabled = False, rendered = nodes, storage = stored,
       writable = w, timers = [], tracked = [], resolverCalls = [] \<rparr>"

definition construct ::
  "config \<Rightarrow> jsval list \<Rightarrow> stored_item \<Rightarrow> bool \<Rightarrow> int \<Rightarrow> string \<Rightarrow> chatbot" where
  "construct cfg nodes stored w now mid = init (blank cfg nodes stored w) now mid"

text \<open>\<open>sendMessage()\<close> up to its last statement. The reply is handed to \<open>setTimeout\<close> and
  is added when that timer fires (\<open>fireTimer\<close>).\<close>

definition sendMessage :: "chatbot \<Rightarrow> api_outcome \<Rightarrow> int \<Rightarrow> string \<Rightarrow> chatbot" where
  "sendMessage s api now mid =
     (let message = trim (inputValue s)
      in if message = [] then s
         else
           (let s1 = updateSendButton (s\<lparr>inputValue := []\<rparr>);
                s2 = addMessage s1 ''user'' (JStr message) None now mid;
                s3 = showTyping s2;
                s4 = s3\<lparr>resolverCalls := resolverCalls s3 @ [message]\<rparr>;
                s5 = (case getBotResponse (config s4) api message of
                        Inr response \<Rightarrow>
                          (let s' = hideTyping s4
                           in s'\<lparr>timers := timers s' @ [BotReply response]\<rparr>)
                      | Inl error \<Rightarrow>
                          (let s' = hideTyping s4
                           in s'\<lparr>timers := timers s' @
                                [BotReply (JStr ''Sorry, I'm having trouble responding right now. Please try again.'')]\<rparr>))
            in trackEvent s5 ''message_sent'' (Some message)))"

text \<open>The \<open>i\<close>-th pending timer fires.\<close>

definition fireTimer :: "chatbot \<Rightarrow> nat \<Rightarrow> int \<Rightarrow> string \<Rightarrow> chatbot" where
  "fireTimer s i now mid =
     (if i < length (timers s) then
        (let s' = s\<lparr>timers := take i (timers s) @ drop (Suc i) (timers s)\<rparr>
         in case timers s ! i of
              OpenChat \<Rightarrow> openChat s'
            | BotReply response \<Rightarrow> addMessage s' ''bot'' response None now mid)
      else s)"

definition clearHistory :: "chatbot \<Rightarrow> int \<Rightarrow> string \<Rightarrow> chatbot" where
  "clearHistory s now mid =
     (let s1 = s\<lparr>messageHistory := []\<rparr>;
          s2 = s1\<lparr>rendered := []\<rparr>;
          s3 = saveMessageHistory s2 now
      in addMessage s3 ''bot'' (JStr (welcomeMessage (config s3))) None now mid)"

definition refreshChat :: "chatbot \<Rightarrow> int \<Rightarrow> string \<Rightarrow> chatbot" where
  "refreshChat s now mid = trackEvent (clearHistory s now mid) ''chatbot_refreshed'' None"

subsection \<open>Statistics\<close>

text \<open>\<open>this.messageHistory.filter(msg => msg.sender === tag)\<close>\<close>

fun filterSender :: "string \<Rightarrow> jsval list \<Rightarrow> js_error + jsval list" where
  "filterSender tag [] = Inr []"
| "filterSender tag (msg # msgs) =
     (case getProp msg ''sender'' of
        Inl e \<Rightarrow> Inl e
      | Inr sender \<Rightarrow>
          (case filterSender tag msgs of
             Inl e \<Rightarrow> Inl e
           | Inr kept \<Rightarrow> Inr (if sender = Some (JStr tag) then msg # kept else kept)))"

text \<open>\<open>m?.timestamp\<close> for an element that may be missing.\<close>

definition optTimestamp :: "jsval option \<Rightarrow> jsval option" where
  "optTimestamp m =
     (case m of
        None \<Rightarrow> None
      | Some v \<Rightarrow> (case getProp v ''timestamp'' of Inl e \<Rightarrow> None | Inr t \<Rightarrow> t))"

record stats =
  totalMessages :: nat
  userMessages :: nat
  botMessages :: nat
  firstMessage :: "jsval option"
  lastMessage :: "jsval option"
  statsIsOpen :: bool

text \<open>\<open>getStats()\<close>; its field \<open>isMinimized\<close> is always \<open>undefined\<close> and is left out.\<close>

definition getStats :: "chatbot \<Rightarrow> js_error + stats" where
  "getStats s =
     (case filterSender ''user'' (messageHistory s) of
        Inl e \<Rightarrow> Inl e
      | Inr userMsgs \<Rightarrow>
          (case filterSender ''bot'' (messageHistory s) of
             Inl e \<Rightarrow> Inl e
           | Inr botMsgs \<Rightarrow>
               Inr \<lparr> totalMessages = length (messageHistory s),
                     userMessages = length userMsgs,
                     botMessages = length botMsgs,
                     firstMessage =
                       optTimestamp (if messageHistory s = [] then None
                                     else Some (hd (messageHistory s))),
                     lastMessage =
                       optTimestamp (if messageHistory s = [] then None
                                     else Some (last (messageHistory s))),
                     statsIsOpen = isOpen s \<rparr>))"

subsection \<open>Runs of the controller\<close>

text \<open>The input handler: the user edits the field, then \<open>updateSendButton()\<close> runs.\<close>

definition setInput :: "chatbot \<Rightarrow> string \<Rightarrow> chatbot" where
  "setInput s v = updateSendButton (s\<lparr>inputValue := v\<rparr>)"

definition senderKnown :: "jsval \<Rightarrow> bool" where
  "senderKnown msg =
     (getProp msg ''sender'' = Inr (Some (JStr ''user''))
      \<or> getProp msg ''sender'' = Inr (Some (JStr ''bot'')))"

text \<open>A stored item whose messages, if it has any, all carry one of the two senders:
  an empty store, and whatever the controller itself has saved.\<close>

fun storedKnown :: "stored_item \<Rightarrow> bool" where
  "storedKnown (Parsed stamp (Some msgs)) = list_all senderKnown msgs"
| "storedKnown item = True"

definition knownSenders :: "chatbot \<Rightarrow> bool" where
  "knownSenders s = (list_all senderKnown (messageHistory s) \<and> storedKnown (storage s))"

text \<open>The states the controller gets into when the store holds \<open>stored\<close> at its
  construction: the construction itself, then the user's actions, timers firing, a
  change of the configuration (\<open>updateConfig\<close>), the store starting or ceasing to accept
  writes, and a reload of the page, which constructs a new controller on the store the
  old one leaves behind.\<close>

inductive reachableFrom :: "stored_item \<Rightarrow> chatbot \<Rightarrow> bool" where
  start: "reachableFrom stored (construct cfg nodes stored w now mid)"
| send: "reachableFrom stored s \<Longrightarrow> reachableFrom stored (sendMessage s api now mid)"
| timer: "reachableFrom stored s \<Longrightarrow> reachableFrom stored (fireTimer s i now mid)"
| refresh: "reachableFrom stored s \<Longrightarrow> reachableFrom stored (refreshChat s now mid)"
| toggle: "reachableFrom stored s \<Longrightarrow> reachableFrom stored (toggleChat s)"
| opened: "reachableFrom stored s \<Longrightarrow> reachableFrom stored (openChat s)"
| closed: "reachableFrom stored s \<Longrightarrow> reachableFrom stored (closeChat s)"
| typed: "reachableFrom stored s \<Longrightarrow> reachableFrom stored (setInput s v)"
| configured: "reachableFrom stored s \<Longrightarrow> reachableFrom stored (s\<lparr>config := cfg\<rparr>)"
| quota: "reachableFrom stored s \<Longrightarrow> reachableFrom stored (s\<lparr>writable := w\<rparr>)"
| reload: "reachableFrom stored s \<Longrightarrow>
           reachableFrom stored (construct cfg nodes (storage s) w now mid)"

subsection \<open>The specification's wording\<close>

text \<open>The specification calls a key a match when it is a case-insensitive substring of
  the input: both sides compared in lower case.\<close>

definition caseInsensitiveSubstring :: "string \<Rightarrow> string \<Rightarrow> bool" where
  "caseInsensitiveSubstring key text = includesStr (toLowerCase text) (toLowerCase key)"

text \<open>The specification's default reply: the template with its placeholder replaced by
  the input text as it was typed.\<close>

definition verbatimFill :: "string \<Rightarrow> string \<Rightarrow> string" where
  "verbatimFill template message =
     (case splitAtFirst ''{message}'' template of
        None \<Rightarrow> template
      | Some (preceding, following) \<Rightarrow> preceding @ message @ following)"

text \<open>A value that \<open>JSON.stringify\<close> and \<open>JSON.parse\<close> give back as it is: no infinity,
  \<open>NaN\<close>, negative zero or \<open>Date\<close> anywhere in it.\<close>

primrec plainJson :: "jsval \<Rightarrow> bool" where
  "plainJson JNull = True"
| "plainJson (JBool b) = True"
| "plainJson (JNum n) = (case n of Finite r \<Rightarrow> True | _ \<Rightarrow> False)"
| "plainJson (JStr s) = True"
| "plainJson (JDate t) = False"
| "plainJson (JArr xs) = list_all id (map plainJson xs)"
| "plainJson (JObj kvs) = list_all snd (map (map_prod id plainJson) kvs)"

text \<open>A message whose sender and content are such values, where it has them.\<close>

definition plainPairs :: "jsval \<Rightarrow> bool" where
  "plainPairs msg =
     (case msg of
        JObj kvs \<Rightarrow>
          (case map_of kvs ''sender'' of None \<Rightarrow> True | Some v \<Rightarrow> plainJson v)
          \<and> (case map_of kvs ''content'' of None \<Rightarrow> True | Some v \<Rightarrow> plainJson v)
      | _ \<Rightarrow> plainJson msg)"

text \<open>The two fields of a message that the round trip is stated for.\<close>

definition senderContent :: "jsval \<Rightarrow> (js_error + jsval option) \<times> (js_error + jsval option)" where
  "senderContent msg = (getProp msg ''sender'', getProp msg ''content'')"

section \<open>Properties\<close>

subsection \<open>Strings\<close>

lemma startsWith_append: "startsWith s pat \<Longrightarrow> s = pat @ drop (length pat) s"
  by (induction s pat rule: startsWith.induct) auto

lemma startsWith_iff: "startsWith s k \<longleftrightarrow> (\<exists>f. s = k @ f)"
  by (induction s k rule: startsWith.induct) auto

text \<open>\<open>includesStr\<close> is the substring test.\<close>

lemma includesStr_iff: "includesStr s k \<longleftrightarrow> (\<exists>p f. s = p @ k @ f)"
proof (induction s)
  case Nil
  then show ?case by (cases k) auto
next
  case (Cons c s)
  show ?case
  proof
    assume "includesStr (c # s) k"
    then consider "startsWith (c # s) k" | "includesStr s k" by auto
    then show "\<exists>p f. c # s = p @ k @ f"
    proof cases
      case 1
      then obtain f where "c # s = k @ f" using startsWith_iff by blast
      then have "c # s = [] @ k @ f" by simp
      then show ?thesis by blast
    next
      case 2
      with Cons.IH obtain p f where "s = p @ k @ f" by blast
      then have "c # s = (c # p) @ k @ f" by simp
      then show ?thesis by blast
    qed
  next
    assume "\<exists>p f. c # s = p @ k @ f"
    then obtain p f where e: "c # s = p @ k @ f" by blast
    show "includesStr (c # s) k"
    proof (cases p)
      case Nil
      with e have "startsWith (c # s) k" using startsWith_iff by auto
      then show ?thesis by simp
    next
      case (Cons a p')
      with e have "s = p' @ k @ f" by simp
      with Cons.IH have "includesStr s k" by blast
      then show ?thesis by simp
    qed
  qed
qed

lemma splitAtFirst_Some:
  "splitAtFirst pat s = Some (p, f) \<Longrightarrow> s = p @ pat @ f"
proof (induction s arbitrary: p)
  case Nil
  then show ?case by (auto split: if_splits)
next
  case (Cons c s)
  show ?case
  proof (cases "startsWith (c # s) pat")
    case True
    with Cons.prems have "p = []" "f = drop (length pat) (c # s)" by auto
    with startsWith_append[OF True] show ?thesis by simp
  next
    case False
    with Cons.prems obtain p' where "splitAtFirst pat s = Some (p', f)" "p = c # p'"
      by (auto split: option.splits)
    with Cons.IH show ?thesis by auto
  qed
qed

lemma getSubstitution_no_dollar:
  "CHR ''$'' \<notin> set r \<Longrightarrow> getSubstitution m p f r = r"
  by (induction m p f r rule: getSubstitution.induct) auto

text \<open>A message without a dollar sign is inserted as it was typed.\<close>

lemma replace_verbatim:
  "CHR ''$'' \<notin> set message \<Longrightarrow>
   replace template ''{message}'' message = verbatimFill template message"
  by (simp add: replace_def verbatimFill_def getSubstitution_no_dollar split: option.splits)

lemma replace_nonempty:
  assumes "template \<noteq> []" and "template \<noteq> pat"
  shows "replace template pat r \<noteq> []"
proof (cases "splitAtFirst pat template")
  case None
  then show ?thesis using assms by (simp add: replace_def)
next
  case (Some pf)
  obtain p f where pf: "pf = (p, f)" by (cases pf)
  from Some pf have "template = p @ pat @ f" by (simp add: splitAtFirst_Some)
  with assms have "p \<noteq> [] \<or> f \<noteq> []" by auto
  with Some pf show ?thesis by (auto simp: replace_def)
qed

lemma all_dropWhile: "(\<forall>x\<in>set (dropWhile P s). P x) \<longleftrightarrow> (\<forall>c\<in>set s. P c)"
proof
  assume a: "\<forall>x\<in>set (dropWhile P s). P x"
  have "dropWhile P s = []"
  proof (rule ccontr)
    assume n: "dropWhile P s \<noteq> []"
    then have "\<not> P (hd (dropWhile P s))" by (rule hd_dropWhile)
    moreover have "hd (dropWhile P s) \<in> set (dropWhile P s)" using n by simp
    ultimately show False using a by blast
  qed
  then show "\<forall>c\<in>set s. P c" by (simp add: dropWhile_eq_Nil_conv)
next
  assume "\<forall>c\<in>set s. P c"
  then show "\<forall>x\<in>set (dropWhile P s). P x" by (meson set_dropWhileD)
qed

lemma trim_empty_iff: "trim v = [] \<longleftrightarrow> (\<forall>c \<in> set v. isWhiteSpace c)"
  by (simp add: trim_def all_dropWhile)

text \<open>Facts for evaluating the resolver on concrete input.\<close>

lemmas resolve_defs =
  getBotResponse_def localPolicy_def pickReply_def truthyOpt_def endpointConfigured_def
  toLowerCase_def lowerChar_def Object_entries_def isArrayIndex_def isDigit_def
  numericValue_def replace_def defaultConfig_def char_of_eq_iff take_bit_eq_mod

subsection \<open>The keyword scan\<close>

lemma keywordScan_first:
  "entries = earlier @ (key, reply) # later \<Longrightarrow> key \<noteq> ''default'' \<Longrightarrow>
   includesStr lm key \<Longrightarrow>
   \<forall>(k, r) \<in> set earlier. k = ''default'' \<or> \<not> includesStr lm k \<Longrightarrow>
   keywordScan entries lm = Some reply"
  by (induction earlier arbitrary: entries) auto

lemma keywordScan_Some_mem:
  "keywordScan entries lm = Some r \<Longrightarrow> \<exists>k. (k, r) \<in> set entries"
  by (induction entries lm rule: keywordScan.induct) (auto split: if_splits)

lemma keywordScan_None:
  "keywordScan entries lm = None \<longleftrightarrow>
   (\<forall>(k, r) \<in> set entries. k = ''default'' \<or> \<not> includesStr lm k)"
  by (induction entries lm rule: keywordScan.induct) auto

lemma set_Object_entries: "set (Object_entries obj) = set obj"
  by (auto simp: Object_entries_def)

text \<open>Without array-index keys the enumeration order is the definition order.\<close>

lemma Object_entries_no_index:
  "\<forall>kv \<in> set obj. \<not> isArrayIndex (fst kv) \<Longrightarrow> Object_entries obj = obj"
  by (simp add: Object_entries_def filter_id_conv filter_empty_conv[THEN iffD2])

text \<open>For a key written in lower case the test of the source is the case-insensitive
  one.\<close>

lemma lower_key_caseInsensitive:
  "toLowerCase key = key \<Longrightarrow>
   caseInsensitiveSubstring key text = includesStr (toLowerCase text) key"
  by (simp add: caseInsensitiveSubstring_def)

text \<open>The two scenarios of the specification: the responses \<open>hello\<close> and \<open>default\<close>, the
  inputs \<open>hello there\<close> and \<open>goodbye\<close>.\<close>

lemma spec_scenarios:
  "getBotResponse
     (defaultConfig\<lparr>responses := [(''hello'', ''Hi!''), (''default'', ''Thanks for your message!'')]\<rparr>)
     FetchRejected ''hello there'' = Inr (JStr ''Hi!'')
   \<and> getBotResponse
     (defaultConfig\<lparr>responses := [(''hello'', ''Hi!''), (''default'', ''Thanks for your message!'')]\<rparr>)
     FetchRejected ''goodbye'' = Inr (JStr ''Thanks for your message!'')"
  by (simp add: resolve_defs)

text \<open>
  C1 (amended). For every responses object and every input text: when a key other than
  \<open>default\<close> occurs, as it is written, in the lower-cased input, the local keyword policy
  of \<open>getBotResponse\<close> returns the reply of the first such key in the order in which
  \<open>Object.entries\<close> enumerates the responses (array-index keys first in ascending order,
  then the other keys in definition order), whatever keys match later in that order. The
  entry keyed \<open>default\<close> is skipped. Without a configured endpoint, and when the request
  fails, the status is not a success or the body is not JSON, this is the result of
  \<open>getBotResponse\<close>.
\<close>

theorem keyword_scan_first_match:
  assumes "Object_entries (responses cfg) = earlier @ (key, reply) # later"
    and "key \<noteq> ''default''"
    and "includesStr (toLowerCase message) key"
    and "\<forall>(k, r) \<in> set earlier. k = ''default'' \<or> \<not> includesStr (toLowerCase message) k"
  shows "localPolicy cfg message = Inr (JStr reply)
         \<and> (\<not> endpointConfigured cfg \<or> api = FetchRejected \<or> api = StatusNotOk
              \<or> api = BodyNotJson
             \<longrightarrow> getBotResponse cfg api message = Inr (JStr reply))"
  using keywordScan_first[OF assms] by (auto simp: localPolicy_def getBotResponse_def)

text \<open>
  The default configuration on the input \<open>Oh HI, help!\<close>: \<open>hello\<close> does not match,
  \<open>hi\<close> is the first key that does, \<open>help\<close> matches later, and the reply is the one
  of \<open>hi\<close>.
\<close>

theorem keyword_scan_first_match_witness:
  \<open>Object_entries (responses defaultConfig)
     = [(''hello'', ''Hello there! How can I assist you today?'')]
       @ (''hi'', ''Hi! What can I help you with?'')
       # [(''help'', ''I'm here to help! You can ask me questions and I'll do my best to assist you.''),
          (''default'', ''I understand you're saying "{message}". How can I help you with that?'')]
   \<and> includesStr (toLowerCase ''Oh HI, help!'') ''hi''
   \<and> includesStr (toLowerCase ''Oh HI, help!'') ''help''
   \<and> \<not> includesStr (toLowerCase ''Oh HI, help!'') ''hello''
   \<and> \<not> endpointConfigured defaultConfig
   \<and> getBotResponse defaultConfig FetchRejected ''Oh HI, help!''
       = Inr (JStr ''Hi! What can I help you with?'')\<close>
proof -
  have e: \<open>Object_entries (responses defaultConfig)
     = [(''hello'', ''Hello there! How can I assist you today?'')]
       @ (''hi'', ''Hi! What can I help you with?'')
       # [(''help'', ''I'm here to help! You can ask me questions and I'll do my best to assist you.''),
          (''default'', ''I understand you're saying "{message}". How can I help you with that?'')]\<close>
    by (simp add: resolve_defs)
  have k: "''hi'' \<noteq> ''default''" by simp
  have i: "includesStr (toLowerCase ''Oh HI, help!'') ''hi''" by (simp add: resolve_defs)
  have h: "includesStr (toLowerCase ''Oh HI, help!'') ''help''" by (simp add: resolve_defs)
  have n: "\<not> includesStr (toLowerCase ''Oh HI, help!'') ''hello''" by (simp add: resolve_defs)
  have a: "\<forall>(k, r) \<in> set [(''hello'', ''Hello there! How can I assist you today?'')].
             k = ''default'' \<or> \<not> includesStr (toLowerCase ''Oh HI, help!'') k"
    using n by simp
  have c: "\<not> endpointConfigured defaultConfig" by (simp add: resolve_defs)
  from keyword_scan_first_match[OF e k i a, of FetchRejected] c e i h n show ?thesis by blast
qed

text \<open>
  C1 as stated fails on two inputs. The key \<open>Hello\<close> is a case-insensitive substring of
  \<open>Hello there\<close>, yet the reply is the default one: the source lower-cases the input and
  not the key. The keys \<open>hi\<close> and \<open>1\<close> both occur in \<open>hi 1\<close> and \<open>hi\<close> is defined first,
  yet the reply is the one of \<open>1\<close>: \<open>Object.entries\<close> puts the array index first.
\<close>

theorem case_insensitive_key_counterexample:
  "caseInsensitiveSubstring ''Hello'' ''Hello there''
   \<and> getBotResponse
         (defaultConfig\<lparr>responses :=
            [(''Hello'', ''Hi!''), (''default'', ''Thanks for your message!'')]\<rparr>)
         FetchRejected ''Hello there''
       = Inr (JStr ''Thanks for your message!'')
   \<and> caseInsensitiveSubstring ''hi'' ''hi 1''
   \<and> caseInsensitiveSubstring ''1'' ''hi 1''
   \<and> getBotResponse
         (defaultConfig\<lparr>responses := [(''hi'', ''A''), (''1'', ''B''), (''default'', ''D'')]\<rparr>)
         FetchRejected ''hi 1''
       = Inr (JStr ''B'')"
  by (simp add: resolve_defs caseInsensitiveSubstring_def)

subsection \<open>The default reply\<close>

text \<open>
  C2. When no keyword matches, the reply should be the default template with
  \<open>{message}\<close> replaced by the input as typed. On the input \<^verbatim>\<open>$&\<close> the source returns the
  default template with the placeholder still in it, because \<open>String.prototype.replace\<close>
  reads \<^verbatim>\<open>$&\<close> in the replacement text as the matched text; the reply with the input as
  typed is a different string.
\<close>

theorem default_reply_dollar_pattern:
  \<open>getBotResponse defaultConfig FetchRejected ''$&''
     = Inr (JStr ''I understand you're saying "{message}". How can I help you with that?'')
   \<and> verbatimFill ''I understand you're saying "{message}". How can I help you with that?'' ''$&''
     = ''I understand you're saying "$&". How can I help you with that?''
   \<and> keywordScan (Object_entries (responses defaultConfig)) (toLowerCase ''$&'') = None\<close>
  by (simp add: resolve_defs verbatimFill_def)

subsection \<open>Saving and loading\<close>

lemma sliceLast_suffix: "xs = take (length xs - n) xs @ sliceLast n xs"
  by (simp add: sliceLast_def)

lemma length_sliceLast: "length (sliceLast n xs) = min n (length xs)"
  by (simp add: sliceLast_def)

lemma sliceLast_short: "length xs \<le> n \<Longrightarrow> sliceLast n xs = xs"
  by (simp add: sliceLast_def)

lemma set_sliceLast: "set (sliceLast n xs) \<subseteq> set xs"
  by (simp add: sliceLast_def set_drop_subset)

lemma daysDiff_less_7: "daysDiff later now < 7 \<longleftrightarrow> later - now < 604800000"
proof -
  have "daysDiff later now < 7 \<longleftrightarrow> (of_int (later - now) :: rat) < of_int 604800000"
    by (simp add: daysDiff_def)
  also have "\<dots> \<longleftrightarrow> later - now < 604800000"
    by (simp only: of_int_less_iff)
  finally show ?thesis .
qed

lemma messageHistory_render [simp]:
  "messageHistory (fst (renderMessageHistory s)) = messageHistory s"
  by (simp add: renderMessageHistory_def split: prod.splits)

lemma map_of_map_prod: "map_of (map (map_prod id f) kvs) k = map_option f (map_of kvs k)"
  by (induction kvs) auto

lemma getProp_roundtrip_object:
  "getProp (jsonRoundTrip (JObj kvs)) k = Inr (map_option jsonRoundTrip (map_of kvs k))"
  by (simp add: map_of_map_prod)

text \<open>The round trip changes nothing in a value without infinity, \<open>NaN\<close>, negative zero
  and \<open>Date\<close>.\<close>

lemma plainJson_fixed: "plainJson v \<Longrightarrow> jsonRoundTrip v = v"
proof (induction v)
  case (JNum n)
  then show ?case by (cases n) auto
next
  case (JArr xs)
  then have "\<forall>x \<in> set xs. jsonRoundTrip x = x" by (auto simp: list_all_iff)
  then show ?case by (simp add: map_idI)
next
  case (JObj kvs)
  have "map_prod id jsonRoundTrip kv = kv" if "kv \<in> set kvs" for kv
  proof -
    obtain k v where kv: "kv = (k, v)" by (cases kv)
    with that JObj.prems have "plainJson v" by (force simp: list_all_iff)
    moreover from kv that have "v \<in> Basic_BNFs.snds kv" by simp
    ultimately have "jsonRoundTrip v = v" using JObj.IH that by blast
    with kv show ?thesis by simp
  qed
  then show ?case by (simp add: map_idI)
qed auto

lemma senderContent_plainPairs:
  assumes "plainPairs msg"
  shows "senderContent (jsonRoundTrip msg) = senderContent msg"
proof (cases msg)
  case (JObj kvs)
  with assms show ?thesis
    by (auto simp: plainPairs_def senderContent_def map_of_map_prod plainJson_fixed
        split: option.splits)
next
  case JNull
  then show ?thesis by simp
next
  case (JBool b)
  then show ?thesis by simp
next
  case (JNum n)
  with assms have "plainJson msg" by (simp add: plainPairs_def)
  then have "jsonRoundTrip msg = msg" by (rule plainJson_fixed)
  then show ?thesis by simp
next
  case (JStr s)
  then show ?thesis by simp
next
  case (JDate t)
  with assms show ?thesis by (simp add: plainPairs_def)
next
  case (JArr xs)
  with assms have "plainJson msg" by (simp add: plainPairs_def)
  then have "jsonRoundTrip msg = msg" by (rule plainJson_fixed)
  then show ?thesis by simp
qed

lemma map_senderContent_plainPairs:
  "list_all plainPairs msgs \<Longrightarrow>
   map senderContent (map jsonRoundTrip msgs) = map senderContent msgs"
  by (induction msgs) (simp_all add: senderContent_plainPairs)

text \<open>What a message made by \<open>addMessage\<close> is after the round trip: the same sender, id
  and (rendered) content, and the ISO string of its instant.\<close>

lemma jsonRoundTrip_messageObject:
  "jsonRoundTrip (messageObject sender content t mid)
     = JObj [(''sender'', JStr sender), (''content'', jsonRoundTrip content),
             (''timestamp'', JStr (toISOString t)), (''id'', JStr mid)]"
  by (simp add: messageObject_def)

text \<open>
  C3. For every in-memory history, of any length, \<open>saveMessageHistory\<close> leaves the
  in-memory history as it is, and the snapshot it writes (when the store accepts the
  write) holds the most recent 50 messages, each as \<open>JSON\<close> renders it, in their order:
  the history is some older messages followed by the messages of the snapshot, and the
  snapshot has 50 messages, or all of them when the history has fewer. Where senders and
  contents are plain values (strings among them), the sender and content pairs of the
  snapshot are those of the most recent 50 messages.
\<close>

theorem save_keeps_last_50:
  "messageHistory (saveMessageHistory s now) = messageHistory s
   \<and> (writable s \<longrightarrow>
        storage (saveMessageHistory s now)
          = Parsed (Some now) (Some (map jsonRoundTrip (sliceLast 50 (messageHistory s))))
        \<and> messageHistory s
          = take (length (messageHistory s) - 50) (messageHistory s)
            @ sliceLast 50 (messageHistory s)
        \<and> length (map jsonRoundTrip (sliceLast 50 (messageHistory s)))
          = min 50 (length (messageHistory s))
        \<and> (list_all plainPairs (messageHistory s) \<longrightarrow>
             map senderContent (map jsonRoundTrip (sliceLast 50 (messageHistory s)))
             = map senderContent (sliceLast 50 (messageHistory s))))"
proof -
  let ?h = "messageHistory s"
  have a: "messageHistory (saveMessageHistory s now) = ?h"
    by (simp add: saveMessageHistory_def)
  have b: "storage (saveMessageHistory s now)
      = Parsed (Some now) (Some (map jsonRoundTrip (sliceLast 50 ?h)))" if "writable s"
    using that by (simp add: saveMessageHistory_def)
  have c: "?h = take (length ?h - 50) ?h @ sliceLast 50 ?h"
    by (rule sliceLast_suffix)
  have d: "length (map jsonRoundTrip (sliceLast 50 ?h)) = min 50 (length ?h)"
    by (simp add: length_sliceLast)
  have e: "map senderContent (map jsonRoundTrip (sliceLast 50 ?h))
      = map senderContent (sliceLast 50 ?h)" if "list_all plainPairs ?h"
  proof (rule map_senderContent_plainPairs)
    show "list_all plainPairs (sliceLast 50 ?h)"
      using that set_sliceLast[of 50 ?h] by (auto simp: list_all_iff)
  qed
  from a b c d e show ?thesis by blast
qed

text \<open>A history of 60 messages, numbered by their timestamps 0 to 59: the snapshot holds
  the messages 10 to 59 with their timestamps as ISO strings, and the history still
  holds all 60.\<close>

theorem save_keeps_last_50_witness:
  "writable ((blank defaultConfig [] NoItem True)
       \<lparr>messageHistory := map (\<lambda>i. messageObject ''user'' (JStr ''hi'') (int i) ''m'') [0..<60]\<rparr>)
   \<and> storage (saveMessageHistory ((blank defaultConfig [] NoItem True)
       \<lparr>messageHistory := map (\<lambda>i. messageObject ''user'' (JStr ''hi'') (int i) ''m'') [0..<60]\<rparr>) 1000)
     = Parsed (Some 1000)
         (Some (map (\<lambda>i. JObj [(''sender'', JStr ''user''), (''content'', JStr ''hi''),
                                 (''timestamp'', JStr (toISOString (int i))), (''id'', JStr ''m'')])
                  [10..<60]))
   \<and> length (map (\<lambda>i. JObj [(''sender'', JStr ''user''), (''content'', JStr ''hi''),
                             (''timestamp'', JStr (toISOString (int i))), (''id'', JStr ''m'')])
               [10..<60]) = 50
   \<and> messageHistory (saveMessageHistory ((blank defaultConfig [] NoItem True)
       \<lparr>messageHistory := map (\<lambda>i. messageObject ''user'' (JStr ''hi'') (int i) ''m'') [0..<60]\<rparr>) 1000)
     = map (\<lambda>i. messageObject ''user'' (JStr ''hi'') (int i) ''m'') [0..<60]"
  using save_keeps_last_50[of "(blank defaultConfig [] NoItem True)
       \<lparr>messageHistory := map (\<lambda>i. messageObject ''user'' (JStr ''hi'') (int i) ''m'') [0..<60]\<rparr>" 1000]
  by (simp add: blank_def sliceLast_def drop_map jsonRoundTrip_messageObject o_def)

text \<open>
  C4 (amended). Round trip: for every history of at most 50 messages, when
  \<open>saveMessageHistory\<close> has written its snapshot and \<open>loadMessageHistory\<close> reads that
  snapshot less than 7 days later, the loaded in-memory history is the saved one as
  \<open>JSON.stringify\<close> and \<open>JSON.parse\<close> render it, message by message in the same order: a
  \<open>Date\<close> is its ISO-8601 string, an infinity or \<open>NaN\<close> is \<open>null\<close>, negative zero is zero.
  When the senders and contents of the saved messages are plain values (no infinity,
  \<open>NaN\<close>, negative zero or \<open>Date\<close> in them; strings are plain), the sequence of sender and
  content pairs of the loaded history is identical to the saved one.
\<close>

theorem save_load_roundtrip:
  assumes "length (messageHistory s) \<le> 50" and "writable s"
    and "later - now < 7 * 24 * 60 * 60 * 1000"
    and "storage t = storage (saveMessageHistory s now)"
  shows "messageHistory (loadMessageHistory t later) = map jsonRoundTrip (messageHistory s)
         \<and> (list_all plainPairs (messageHistory s) \<longrightarrow>
              map senderContent (messageHistory (loadMessageHistory t later))
              = map senderContent (messageHistory s))"
proof -
  have "storage t = Parsed (Some now) (Some (map jsonRoundTrip (messageHistory s)))"
    using assms by (simp add: saveMessageHistory_def sliceLast_short)
  moreover have "daysDiff later now < 7" using assms(3) by (simp add: daysDiff_less_7)
  ultimately have l: "messageHistory (loadMessageHistory t later)
      = map jsonRoundTrip (messageHistory s)"
    by (simp add: loadMessageHistory_def)
  have "map senderContent (messageHistory (loadMessageHistory t later))
      = map senderContent (messageHistory s)" if "list_all plainPairs (messageHistory s)"
    unfolding l using that by (rule map_senderContent_plainPairs)
  with l show ?thesis by blast
qed

lemma toISOString_examples:
  "toISOString 10 = ''1970-01-01T00:00:00.010Z''"
  "toISOString 20 = ''1970-01-01T00:00:00.020Z''"
  by code_simp+

text \<open>Two messages saved at instant 1000 and loaded one day later by a new controller:
  the same senders and contents, the timestamps as ISO strings.\<close>

theorem save_load_roundtrip_witness:
  "length [messageObject ''user'' (JStr ''hello'') 10 ''msg_10_a'',
           messageObject ''bot'' (JStr ''Hello there!'') 20 ''msg_20_b''] \<le> 50
   \<and> (86401000::int) - 1000 < 7 * 24 * 60 * 60 * 1000
   \<and> list_all plainPairs [messageObject ''user'' (JStr ''hello'') 10 ''msg_10_a'',
                           messageObject ''bot'' (JStr ''Hello there!'') 20 ''msg_20_b'']
   \<and> messageHistory
        (loadMessageHistory
           (blank defaultConfig []
              (storage (saveMessageHistory
                 ((blank defaultConfig [] NoItem True)
                    \<lparr>messageHistory :=
                       [messageObject ''user'' (JStr ''hello'') 10 ''msg_10_a'',
                        messageObject ''bot'' (JStr ''Hello there!'') 20 ''msg_20_b'']\<rparr>)
                 1000))
              True)
           86401000)
      = [JObj [(''sender'', JStr ''user''), (''content'', JStr ''hello''),
               (''timestamp'', JStr ''1970-01-01T00:00:00.010Z''), (''id'', JStr ''msg_10_a'')],
         JObj [(''sender'', JStr ''bot''), (''content'', JStr ''Hello there!''),
               (''timestamp'', JStr ''1970-01-01T00:00:00.020Z''), (''id'', JStr ''msg_20_b'')]]
   \<and> map senderContent (messageHistory
        (loadMessageHistory
           (blank defaultConfig []
              (storage (saveMessageHistory
                 ((blank defaultConfig [] NoItem True)
                    \<lparr>messageHistory :=
                       [messageObject ''user'' (JStr ''hello'') 10 ''msg_10_a'',
                        messageObject ''bot'' (JStr ''Hello there!'') 20 ''msg_20_b'']\<rparr>)
                 1000))
              True)
           86401000))
      = [(Inr (Some (JStr ''user'')), Inr (Some (JStr ''hello''))),
         (Inr (Some (JStr ''bot'')), Inr (Some (JStr ''Hello there!'')))]"
proof -
  let ?h = "[messageObject ''user'' (JStr ''hello'') 10 ''msg_10_a'',
             messageObject ''bot'' (JStr ''Hello there!'') 20 ''msg_20_b'']"
  let ?s = "(blank defaultConfig [] NoItem True)\<lparr>messageHistory := ?h\<rparr>"
  let ?t = "blank defaultConfig [] (storage (saveMessageHistory ?s 1000)) True"
  have l: "length (messageHistory ?s) \<le> 50" by simp
  have w: "writable ?s" by (simp add: blank_def)
  have a: "(86401000::int) - 1000 < 7 * 24 * 60 * 60 * 1000" by simp
  have e: "storage ?t = storage (saveMessageHistory ?s 1000)" by (simp add: blank_def)
  have p: "list_all plainPairs ?h" by (simp add: plainPairs_def messageObject_def)
  have mh: "messageHistory ?s = ?h" by simp
  note th = save_load_roundtrip[OF l w a e, unfolded mh]
  from th have h1: "messageHistory (loadMessageHistory ?t 86401000) = map jsonRoundTrip ?h"
    by blast
  from th p have h2: "map senderContent (messageHistory (loadMessageHistory ?t 86401000))
      = map senderContent ?h" by blast
  have r: "map jsonRoundTrip ?h
      = [JObj [(''sender'', JStr ''user''), (''content'', JStr ''hello''),
               (''timestamp'', JStr ''1970-01-01T00:00:00.010Z''), (''id'', JStr ''msg_10_a'')],
         JObj [(''sender'', JStr ''bot''), (''content'', JStr ''Hello there!''),
               (''timestamp'', JStr ''1970-01-01T00:00:00.020Z''), (''id'', JStr ''msg_20_b'')]]"
    by (simp add: jsonRoundTrip_messageObject toISOString_examples)
  have c: "map senderContent ?h
      = [(Inr (Some (JStr ''user'')), Inr (Some (JStr ''hello''))),
         (Inr (Some (JStr ''bot'')), Inr (Some (JStr ''Hello there!'')))]"
    by (simp add: senderContent_def messageObject_def)
  from a p show ?thesis unfolding h2 c unfolding h1 r by simp
qed

text \<open>
  C4 as stated fails on a history the controller reaches: with an endpoint configured
  and the remote body \<^verbatim>\<open>{"message": 1e400}\<close>, the bot reply to \<open>hi\<close> has the content
  \<open>Infinity\<close>. The history has three messages; saved and loaded 300 ms later, the
  third content is \<open>null\<close>.
\<close>

theorem non_finite_content_counterexample:
  "reachableFrom NoItem
     (fireTimer (sendMessage
        (setInput (construct (defaultConfig\<lparr>apiEndpoint := Some ''/api/chat''\<rparr>) []
                    NoItem True 0 ''m0'') ''hi'')
        (Body (JObj [(''message'', JNum PosInfinity)])) 10 ''m1'') 0 600 ''m2'')
   \<and> map senderContent (messageHistory
       (fireTimer (sendMessage
          (setInput (construct (defaultConfig\<lparr>apiEndpoint := Some ''/api/chat''\<rparr>) []
                      NoItem True 0 ''m0'') ''hi'')
          (Body (JObj [(''message'', JNum PosInfinity)])) 10 ''m1'') 0 600 ''m2''))
     = [(Inr (Some (JStr ''bot'')), Inr (Some (JStr ''Hello! How can I help you today?''))),
        (Inr (Some (JStr ''user'')), Inr (Some (JStr ''hi''))),
        (Inr (Some (JStr ''bot'')), Inr (Some (JNum PosInfinity)))]
   \<and> map senderContent (messageHistory
       (loadMessageHistory
          (blank (defaultConfig\<lparr>apiEndpoint := Some ''/api/chat''\<rparr>) []
             (storage (saveMessageHistory
                (fireTimer (sendMessage
                   (setInput (construct (defaultConfig\<lparr>apiEndpoint := Some ''/api/chat''\<rparr>) []
                               NoItem True 0 ''m0'') ''hi'')
                   (Body (JObj [(''message'', JNum PosInfinity)])) 10 ''m1'') 0 600 ''m2'')
                700))
             True)
          1000))
     = [(Inr (Some (JStr ''bot'')), Inr (Some (JStr ''Hello! How can I help you today?''))),
        (Inr (Some (JStr ''user'')), Inr (Some (JStr ''hi''))),
        (Inr (Some (JStr ''bot'')), Inr (Some JNull))]"
proof -
  let ?cfg = "defaultConfig\<lparr>apiEndpoint := Some ''/api/chat''\<rparr>"
  let ?s = "fireTimer (sendMessage
        (setInput (construct ?cfg [] NoItem True 0 ''m0'') ''hi'')
        (Body (JObj [(''message'', JNum PosInfinity)])) 10 ''m1'') 0 600 ''m2''"
  have r: "reachableFrom NoItem ?s"
    by (intro reachableFrom.timer reachableFrom.send reachableFrom.typed reachableFrom.start)
  have h: "messageHistory ?s
      = [messageObject ''bot'' (JStr ''Hello! How can I help you today?'') 0 ''m0'',
         messageObject ''user'' (JStr ''hi'') 10 ''m1'',
         messageObject ''bot'' (JNum PosInfinity) 600 ''m2'']"
    by (simp add: fireTimer_def sendMessage_def setInput_def construct_def init_def
        loadMessageHistory_def blank_def addMessage_def saveMessageHistory_def
        updateSendButton_def trackEvent_def showTyping_def hideTyping_def
        trim_def isWhiteSpace_def Let_def resolve_defs)
  have w: "writable ?s"
    by (simp add: fireTimer_def sendMessage_def setInput_def construct_def init_def
        loadMessageHistory_def blank_def addMessage_def saveMessageHistory_def
        updateSendButton_def trackEvent_def showTyping_def hideTyping_def
        trim_def isWhiteSpace_def Let_def resolve_defs)
  have d: "daysDiff 1000 700 < 7" by (simp add: daysDiff_def)
  have l: "messageHistory (loadMessageHistory
             (blank ?cfg [] (storage (saveMessageHistory ?s 700)) True) 1000)
      = map jsonRoundTrip (messageHistory ?s)"
    using w d by (simp add: saveMessageHistory_def loadMessageHistory_def blank_def sliceLast_def h)
  show ?thesis
    unfolding l unfolding h using r
    by (simp add: senderContent_def messageObject_def h)
qed

subsection \<open>Sending\<close>

text \<open>
  C6. For every input whose trimmed value is empty (the empty input, or white space
  only), \<open>sendMessage\<close> returns the state it was called in: no message is added, the
  resolver is not called, no event is tracked, and the history and the stored snapshot
  are as before.
\<close>

theorem sendMessage_blank_noop:
  "\<forall>c \<in> set (inputValue s). isWhiteSpace c \<Longrightarrow> sendMessage s api now mid = s"
  by (simp add: sendMessage_def trim_empty_iff)

text \<open>An input of two spaces and a tab.\<close>

theorem sendMessage_blank_noop_witness:
  "inputValue (setInput (blank defaultConfig [] NoItem True) [CHR '' '', CHR '' '', CHR 0x09])
     = [CHR '' '', CHR '' '', CHR 0x09]
   \<and> isWhiteSpace (CHR '' '') \<and> isWhiteSpace (CHR 0x09)
   \<and> sendMessage (setInput (blank defaultConfig [] NoItem True) [CHR '' '', CHR '' '', CHR 0x09])
        FetchRejected 5 ''m''
     = setInput (blank defaultConfig [] NoItem True) [CHR '' '', CHR '' '', CHR 0x09]"
proof -
  have v: "inputValue (setInput (blank defaultConfig [] NoItem True)
              [CHR '' '', CHR '' '', CHR 0x09]) = [CHR '' '', CHR '' '', CHR 0x09]"
    by (simp add: setInput_def updateSendButton_def blank_def)
  have w: "isWhiteSpace (CHR '' '')" "isWhiteSpace (CHR 0x09)"
    by (simp_all add: isWhiteSpace_def)
  have "\<forall>c \<in> set (inputValue (setInput (blank defaultConfig [] NoItem True)
              [CHR '' '', CHR '' '', CHR 0x09])). isWhiteSpace c"
    using v w by simp
  from sendMessage_blank_noop[OF this] v w show ?thesis by blast
qed

subsection \<open>Remote failures\<close>

lemma localPolicy_nonempty:
  assumes "list_all (\<lambda>(k, r). r \<noteq> []) (responses cfg)"
    and "map_of (responses cfg) ''default'' \<noteq> None"
    and "map_of (responses cfg) ''default'' \<noteq> Some ''{message}''"
  shows "\<exists>reply. localPolicy cfg message = Inr (JStr reply) \<and> reply \<noteq> []"
proof (cases "keywordScan (Object_entries (responses cfg)) (toLowerCase message)")
  case (Some r)
  then obtain k where "(k, r) \<in> set (responses cfg)"
    using keywordScan_Some_mem set_Object_entries by blast
  with assms(1) have "r \<noteq> []" by (auto simp: list_all_iff)
  with Some show ?thesis by (simp add: localPolicy_def)
next
  case None
  from assms(2) obtain template where t: "map_of (responses cfg) ''default'' = Some template"
    by auto
  then have "(''default'', template) \<in> set (responses cfg)" by (rule map_of_SomeD)
  with assms(1) have "template \<noteq> []" by (auto simp: list_all_iff)
  moreover from t assms(3) have "template \<noteq> ''{message}''" by simp
  ultimately have "replace template ''{message}'' message \<noteq> []" by (rule replace_nonempty)
  with None t show ?thesis by (simp add: localPolicy_def)
qed

text \<open>
  C7 (amended). With an endpoint configured: when the request fails (network error),
  the status is not a success, the body is not JSON, or the body is the JSON value
  \<open>null\<close>, \<open>getBotResponse\<close> returns the result of the local keyword policy and the error
  does not propagate. A JSON body that can be read but has neither a truthy \<open>message\<close>
  nor a truthy \<open>response\<close> gives the fixed reply \<open>Sorry, I didn't understand that.\<close>
  and not the local policy. The result of the local policy is a non-empty string whenever
  every configured reply is non-empty and the \<open>default\<close> template is present and is more
  than the bare placeholder.
\<close>

theorem remote_failure_falls_back:
  assumes "endpointConfigured cfg"
  shows "(api = FetchRejected \<or> api = StatusNotOk \<or> api = BodyNotJson \<or> api = Body JNull
            \<longrightarrow> getBotResponse cfg api message = localPolicy cfg message)
       \<and> (getProp data ''message'' = Inr m \<and> \<not> truthyOpt m
            \<and> getProp data ''response'' = Inr r \<and> \<not> truthyOpt r
            \<longrightarrow> getBotResponse cfg (Body data) message
                = Inr (JStr ''Sorry, I didn't understand that.''))
       \<and> (list_all (\<lambda>(k, r). r \<noteq> []) (responses cfg)
            \<and> map_of (responses cfg) ''default'' \<noteq> None
            \<and> map_of (responses cfg) ''default'' \<noteq> Some ''{message}''
            \<longrightarrow> (\<exists>reply. localPolicy cfg message = Inr (JStr reply) \<and> reply \<noteq> []))"
proof (intro conjI impI)
  assume "api = FetchRejected \<or> api = StatusNotOk \<or> api = BodyNotJson \<or> api = Body JNull"
  then show "getBotResponse cfg api message = localPolicy cfg message"
    using assms by (auto simp: getBotResponse_def pickReply_def)
next
  assume "getProp data ''message'' = Inr m \<and> \<not> truthyOpt m
            \<and> getProp data ''response'' = Inr r \<and> \<not> truthyOpt r"
  then show "getBotResponse cfg (Body data) message
               = Inr (JStr ''Sorry, I didn't understand that.'')"
    using assms by (simp add: getBotResponse_def pickReply_def)
next
  assume "list_all (\<lambda>(k, r). r \<noteq> []) (responses cfg)
            \<and> map_of (responses cfg) ''default'' \<noteq> None
            \<and> map_of (responses cfg) ''default'' \<noteq> Some ''{message}''"
  then show "\<exists>reply. localPolicy cfg message = Inr (JStr reply) \<and> reply \<noteq> []"
    using localPolicy_nonempty by blast
qed

text \<open>The default responses with an endpoint: a rejected request on \<open>hello\<close> gives the
  reply of \<open>hello\<close>; the body \<^verbatim>\<open>{"reply": "hi"}\<close> gives the fixed reply.\<close>

theorem remote_failure_falls_back_witness:
  \<open>endpointConfigured (defaultConfig\<lparr>apiEndpoint := Some ''/api/chat''\<rparr>)
   \<and> getBotResponse (defaultConfig\<lparr>apiEndpoint := Some ''/api/chat''\<rparr>) FetchRejected ''hello''
       = Inr (JStr ''Hello there! How can I assist you today?'')
   \<and> localPolicy (defaultConfig\<lparr>apiEndpoint := Some ''/api/chat''\<rparr>) ''hello''
       = Inr (JStr ''Hello there! How can I assist you today?'')
   \<and> getProp (JObj [(''reply'', JStr ''hi'')]) ''message'' = Inr None
   \<and> getProp (JObj [(''reply'', JStr ''hi'')]) ''response'' = Inr None
   \<and> \<not> truthyOpt None
   \<and> getBotResponse (defaultConfig\<lparr>apiEndpoint := Some ''/api/chat''\<rparr>)
         (Body (JObj [(''reply'', JStr ''hi'')])) ''hello''
       = Inr (JStr ''Sorry, I didn't understand that.'')
   \<and> list_all (\<lambda>(k, r). r \<noteq> []) (responses (defaultConfig\<lparr>apiEndpoint := Some ''/api/chat''\<rparr>))
   \<and> map_of (responses (defaultConfig\<lparr>apiEndpoint := Some ''/api/chat''\<rparr>)) ''default''
       = Some ''I understand you're saying "{message}". How can I help you with that?''\<close>
proof -
  let ?cfg = "defaultConfig\<lparr>apiEndpoint := Some ''/api/chat''\<rparr>"
  have c: "endpointConfigured ?cfg" by (simp add: resolve_defs)
  have l: "localPolicy ?cfg ''hello'' = Inr (JStr ''Hello there! How can I assist you today?'')"
    by (simp add: resolve_defs)
  have p: "getProp (JObj [(''reply'', JStr ''hi'')]) ''message'' = Inr None"
    "getProp (JObj [(''reply'', JStr ''hi'')]) ''response'' = Inr None" "\<not> truthyOpt None"
    by (simp_all add: truthyOpt_def)
  have n: "list_all (\<lambda>(k, r). r \<noteq> []) (responses ?cfg)" by (simp add: defaultConfig_def)
  have d: \<open>map_of (responses ?cfg) ''default''
       = Some ''I understand you're saying "{message}". How can I help you with that?''\<close>
    by (simp add: defaultConfig_def)
  from remote_failure_falls_back[OF c, of FetchRejected "''hello''"
      "JObj [(''reply'', JStr ''hi'')]" None None]
    c l p n d show ?thesis by simp
qed

text \<open>
  C7 as stated fails on two inputs. With an endpoint configured and the body \<^verbatim>\<open>{}\<close>,
  which lacks both fields, the reply to \<open>hello\<close> is the fixed reply, where the local
  policy gives the reply of \<open>hello\<close>. With the reply of \<open>hello\<close> configured as the empty
  string and a rejected request, the result is the empty string.
\<close>

theorem missing_fields_counterexample:
  "endpointConfigured (defaultConfig\<lparr>apiEndpoint := Some ''/api/chat''\<rparr>)
   \<and> getBotResponse (defaultConfig\<lparr>apiEndpoint := Some ''/api/chat''\<rparr>) (Body (JObj [])) ''hello''
       = Inr (JStr ''Sorry, I didn't understand that.'')
   \<and> localPolicy (defaultConfig\<lparr>apiEndpoint := Some ''/api/chat''\<rparr>) ''hello''
       = Inr (JStr ''Hello there! How can I assist you today?'')
   \<and> getBotResponse
         (defaultConfig\<lparr>apiEndpoint := Some ''/api/chat'',
                         responses := [(''hello'', []), (''default'', ''Thanks for your message!'')]\<rparr>)
         FetchRejected ''hello''
       = Inr (JStr [])"
  by (simp add: resolve_defs)

subsection \<open>The resolver does not throw\<close>

lemma localPolicy_with_default:
  assumes "map_of (responses cfg) ''default'' \<noteq> None"
  shows "\<exists>text. localPolicy cfg message = Inr (JStr text)"
  using assms by (auto simp: localPolicy_def split: option.splits)

lemma getBotResponse_cases:
  "getBotResponse cfg api message = localPolicy cfg message
   \<or> (endpointConfigured cfg
       \<and> (\<exists>data. api = Body data \<and> pickReply data = getBotResponse cfg api message))"
  by (auto simp: getBotResponse_def split: api_outcome.splits sum.splits)

text \<open>
  C9 (amended). For every configuration whose responses have a \<open>default\<close> entry, every
  input and every outcome of the remote call, \<open>getBotResponse\<close> returns a value and does
  not throw. The value is a string, except that a truthy \<open>message\<close> or \<open>response\<close> field of
  the remote body is returned as it was received, whatever its type. So \<open>sendMessage\<close>
  on a non-empty input schedules that value as the bot reply, and its error branch with
  the apology is not taken.
\<close>

theorem resolver_never_throws:
  assumes "map_of (responses (config s)) ''default'' \<noteq> None"
  shows "(\<forall>message. \<exists>v. getBotResponse (config s) api message = Inr v
            \<and> ((\<exists>text. v = JStr text)
                \<or> (endpointConfigured (config s)
                    \<and> (\<exists>data. api = Body data \<and> pickReply data = Inr v))))
       \<and> (trim (inputValue s) \<noteq> [] \<longrightarrow>
            (\<exists>v. getBotResponse (config s) api (trim (inputValue s)) = Inr v
                 \<and> timers (sendMessage s api now mid) = timers s @ [BotReply v]))"
proof -
  have a: "\<exists>v. getBotResponse (config s) api message = Inr v
            \<and> ((\<exists>text. v = JStr text)
                \<or> (endpointConfigured (config s)
                    \<and> (\<exists>data. api = Body data \<and> pickReply data = Inr v)))"
    for message
    using getBotResponse_cases[of "config s" api message]
      localPolicy_with_default[OF assms, of message]
    by (auto simp: getBotResponse_def split: api_outcome.splits sum.splits)
  have b: "timers (sendMessage s api now mid) = timers s @ [BotReply v]"
    if "trim (inputValue s) \<noteq> []"
      and "getBotResponse (config s) api (trim (inputValue s)) = Inr v"
    for v
    using that
    by (simp add: sendMessage_def Let_def trackEvent_def hideTyping_def showTyping_def
        addMessage_def saveMessageHistory_def updateSendButton_def)
  from a b show ?thesis by blast
qed

text \<open>The default configuration, the input \<open>Hello bot\<close> between spaces, a response that
  is not \<open>ok\<close>: the reply of \<open>hello\<close> is scheduled.\<close>

theorem resolver_never_throws_witness:
  "map_of (responses (config (setInput (blank defaultConfig [] NoItem True) ''  Hello bot '')))
      ''default'' \<noteq> None
   \<and> trim (inputValue (setInput (blank defaultConfig [] NoItem True) ''  Hello bot ''))
       = ''Hello bot''
   \<and> getBotResponse defaultConfig StatusNotOk ''Hello bot''
       = Inr (JStr ''Hello there! How can I assist you today?'')
   \<and> timers (sendMessage (setInput (blank defaultConfig [] NoItem True) ''  Hello bot '')
               StatusNotOk 7 ''m'')
       = [BotReply (JStr ''Hello there! How can I assist you today?'')]"
proof -
  let ?s = "setInput (blank defaultConfig [] NoItem True) ''  Hello bot ''"
  have c: "config ?s = defaultConfig" by (simp add: setInput_def updateSendButton_def blank_def)
  have d: "map_of (responses (config ?s)) ''default'' \<noteq> None"
    by (simp add: c) (simp add: defaultConfig_def)
  have t: "trim (inputValue ?s) = ''Hello bot''"
    by (simp add: setInput_def updateSendButton_def blank_def trim_def isWhiteSpace_def)
  have g: "getBotResponse defaultConfig StatusNotOk ''Hello bot''
       = Inr (JStr ''Hello there! How can I assist you today?'')"
    by (simp add: resolve_defs)
  have e: "timers ?s = []" by (simp add: setInput_def updateSendButton_def blank_def)
  from resolver_never_throws[OF d, of StatusNotOk 7 "''m''"] c t g e d show ?thesis
    by auto
qed

text \<open>
  C9 as stated fails on two inputs. With an endpoint configured, a \<open>default\<close> entry
  present and the body \<^verbatim>\<open>{"message": 42}\<close>, the result is the number 42 and not a
  string. With the responses \<^verbatim>\<open>{hello: 'Hi!'}\<close>, which have no \<open>default\<close> entry (the options
  of the constructor replace the default responses as a whole), the resolver throws on
  the input \<open>bye\<close> and \<open>sendMessage\<close> schedules the apology.
\<close>

theorem resolver_result_counterexample:
  "endpointConfigured (defaultConfig\<lparr>apiEndpoint := Some ''/api/chat''\<rparr>)
   \<and> map_of (responses (defaultConfig\<lparr>apiEndpoint := Some ''/api/chat''\<rparr>)) ''default'' \<noteq> None
   \<and> getBotResponse (defaultConfig\<lparr>apiEndpoint := Some ''/api/chat''\<rparr>)
         (Body (JObj [(''message'', JNum (Finite 42))])) ''hello''
       = Inr (JNum (Finite 42))
   \<and> map_of (responses (defaultConfig\<lparr>responses := [(''hello'', ''Hi!'')]\<rparr>)) ''default'' = None
   \<and> getBotResponse (defaultConfig\<lparr>responses := [(''hello'', ''Hi!'')]\<rparr>) FetchRejected ''bye''
       = Inl TypeError
   \<and> timers (sendMessage
        (setInput (blank (defaultConfig\<lparr>responses := [(''hello'', ''Hi!'')]\<rparr>) [] NoItem True) ''bye'')
        FetchRejected 1 ''m'')
     = [BotReply (JStr ''Sorry, I'm having trouble responding right now. Please try again.'')]"
  by (simp add: sendMessage_def setInput_def blank_def addMessage_def saveMessageHistory_def
      updateSendButton_def trackEvent_def showTyping_def hideTyping_def trim_def
      isWhiteSpace_def Let_def resolve_defs)

subsection \<open>Initialisation and reset\<close>

lemma load_unusable:
  assumes "stored = NoItem \<or> stored = Unreadable \<or> (\<exists>msgs. stored = Parsed None msgs)
           \<or> (\<exists>stamp. stored = Parsed stamp None)
           \<or> (\<exists>t msgs. stored = Parsed (Some t) msgs \<and> 7 * 24 * 60 * 60 * 1000 \<le> now - t)"
    and "storage s = stored"
  shows "loadMessageHistory s now = s"
  using assms
  by (auto simp: loadMessageHistory_def daysDiff_less_7 split: stored_item.splits option.splits)

text \<open>
  C5 (amended). At initialisation, if the stored snapshot is absent, cannot be read
  (it is not JSON, or it is the JSON value \<open>null\<close>), has no valid timestamp, has no
  \<open>messages\<close> field, or is 7 days old or older, then loading leaves the in-memory history
  empty, and \<open>init\<close> appends exactly one message through \<open>addMessage\<close>: the object with
  sender \<open>bot\<close>, the configured \<open>welcomeMessage\<close> as content, the current instant as
  timestamp and the generated id. It is then the whole history and the last element of
  the rendered list, and the snapshot that \<open>addMessage\<close> saves holds it (when the store
  accepts the write).
\<close>

theorem init_without_usable_snapshot:
  assumes "stored = NoItem \<or> stored = Unreadable \<or> (\<exists>msgs. stored = Parsed None msgs)
           \<or> (\<exists>stamp. stored = Parsed stamp None)
           \<or> (\<exists>t msgs. stored = Parsed (Some t) msgs \<and> 7 * 24 * 60 * 60 * 1000 \<le> now - t)"
  shows "messageHistory (loadMessageHistory (blank cfg nodes stored w) now) = []
       \<and> construct cfg nodes stored w now mid
           = addMessage (if autoOpen cfg then (blank cfg nodes stored w)\<lparr>timers := [OpenChat]\<rparr>
                         else blank cfg nodes stored w)
               ''bot'' (JStr (welcomeMessage cfg)) None now mid
       \<and> messageHistory (construct cfg nodes stored w now mid)
           = [JObj [(''sender'', JStr ''bot''), (''content'', JStr (welcomeMessage cfg)),
                    (''timestamp'', JDate now), (''id'', JStr mid)]]
       \<and> rendered (construct cfg nodes stored w now mid)
           = nodes @ [JObj [(''sender'', JStr ''bot''), (''content'', JStr (welcomeMessage cfg)),
                            (''timestamp'', JDate now), (''id'', JStr mid)]]
       \<and> (w \<longrightarrow> storage (construct cfg nodes stored w now mid)
                 = Parsed (Some now)
                     (Some [JObj [(''sender'', JStr ''bot''),
                                  (''content'', JStr (welcomeMessage cfg)),
                                  (''timestamp'', JStr (toISOString now)),
                                  (''id'', JStr mid)]]))"
proof -
  have l: "loadMessageHistory (blank cfg nodes stored w) now = blank cfg nodes stored w"
    by (rule load_unusable[OF assms]) (simp add: blank_def)
  show ?thesis
    unfolding construct_def init_def l
    by (simp add: blank_def addMessage_def saveMessageHistory_def messageObject_def
        sliceLast_def Let_def)
qed

text \<open>A snapshot with one message, saved at instant 0 and read 8 days later.\<close>

theorem init_without_usable_snapshot_witness:
  "(7 * 24 * 60 * 60 * 1000 :: int) \<le> 691200000 - 0
   \<and> messageHistory (loadMessageHistory
        (blank defaultConfig []
           (Parsed (Some 0) (Some [messageObject ''user'' (JStr ''hello'') 0 ''msg_0_a''])) True)
        691200000) = []
   \<and> messageHistory (construct defaultConfig []
        (Parsed (Some 0) (Some [messageObject ''user'' (JStr ''hello'') 0 ''msg_0_a''])) True
        691200000 ''msg_1_b'')
     = [JObj [(''sender'', JStr ''bot''),
              (''content'', JStr ''Hello! How can I help you today?''),
              (''timestamp'', JDate 691200000), (''id'', JStr ''msg_1_b'')]]"
proof -
  let ?stored = "Parsed (Some 0) (Some [messageObject ''user'' (JStr ''hello'') 0 ''msg_0_a''])"
  have a: "(7 * 24 * 60 * 60 * 1000 :: int) \<le> 691200000 - 0" by simp
  then have p: "?stored = NoItem \<or> ?stored = Unreadable \<or> (\<exists>msgs. ?stored = Parsed None msgs)
           \<or> (\<exists>stamp. ?stored = Parsed stamp None)
           \<or> (\<exists>t msgs. ?stored = Parsed (Some t) msgs
                \<and> 7 * 24 * 60 * 60 * 1000 \<le> 691200000 - t)"
    by simp
  have w: "welcomeMessage defaultConfig = ''Hello! How can I help you today?''"
    by (simp add: defaultConfig_def)
  note th = init_without_usable_snapshot[OF p, of defaultConfig "[]" True "''msg_1_b''"]
  from th have h1:
    "messageHistory (loadMessageHistory (blank defaultConfig [] ?stored True) 691200000) = []"
    by blast
  from th have h2: "messageHistory (construct defaultConfig [] ?stored True 691200000 ''msg_1_b'')
     = [JObj [(''sender'', JStr ''bot''), (''content'', JStr (welcomeMessage defaultConfig)),
              (''timestamp'', JDate 691200000), (''id'', JStr ''msg_1_b'')]]"
    by blast
  from a h1 h2 w show ?thesis by simp
qed

text \<open>
  C5 as stated fails on a malformed snapshot that can be read: the stored text
  \<^verbatim>\<open>{"timestamp": "1970-01-01T00:00:00.000Z", "messages": [{}]}\<close>, read one second later,
  is adopted as it is. The history after loading, and after \<open>init\<close>, is the one object
  without any field of a message, and no welcome message is added.
\<close>

theorem ill_formed_snapshot_counterexample:
  "daysDiff 1000 0 < 7
   \<and> messageHistory (loadMessageHistory
        (blank defaultConfig [] (Parsed (Some 0) (Some [JObj []])) True) 1000) = [JObj []]
   \<and> messageHistory
        (construct defaultConfig [] (Parsed (Some 0) (Some [JObj []])) True 1000 ''msg_1_b'')
     = [JObj []]"
  by (simp add: construct_def init_def loadMessageHistory_def daysDiff_def blank_def
      renderMessageHistory_def createMessageElement_def defaultConfig_def)

text \<open>
  C8 (amended). \<open>clearHistory\<close>, which is what \<open>refreshChat\<close> runs, empties the in-memory
  history and the rendered list, saves (so that the stored snapshot has no message, when
  the store accepts the write) and then adds the welcome message through \<open>addMessage\<close>.
  Afterwards the history and the rendered list are exactly one message: the object with
  sender \<open>bot\<close>, the configured \<open>welcomeMessage\<close> as content, the current instant and the
  generated id; and the stored snapshot holds that message. In history, rendered list
  and snapshot the state is that of a controller constructed on an empty store and an
  empty message list. The rest of the state is kept: open or closed, the typing flag,
  the input and the send button, the configuration, the pending timers, and the tracked
  events, to which \<open>refreshChat\<close> adds \<open>chatbot_refreshed\<close>.
\<close>

theorem clearHistory_fresh_start:
  "messageHistory (clearHistory s now mid)
     = [JObj [(''sender'', JStr ''bot''), (''content'', JStr (welcomeMessage (config s))),
              (''timestamp'', JDate now), (''id'', JStr mid)]]
   \<and> rendered (clearHistory s now mid)
     = [JObj [(''sender'', JStr ''bot''), (''content'', JStr (welcomeMessage (config s))),
              (''timestamp'', JDate now), (''id'', JStr mid)]]
   \<and> (writable s \<longrightarrow>
        storage (saveMessageHistory (s\<lparr>messageHistory := [], rendered := []\<rparr>) now)
          = Parsed (Some now) (Some [])
        \<and> storage (clearHistory s now mid)
          = Parsed (Some now)
              (Some [JObj [(''sender'', JStr ''bot''),
                           (''content'', JStr (welcomeMessage (config s))),
                           (''timestamp'', JStr (toISOString now)), (''id'', JStr mid)]])
        \<and> storage (clearHistory s now mid)
          = storage (construct (config s) [] NoItem (writable s) now mid))
   \<and> clearHistory s now mid
     = addMessage (saveMessageHistory (s\<lparr>messageHistory := [], rendered := []\<rparr>) now)
         ''bot'' (JStr (welcomeMessage (config s))) None now mid
   \<and> messageHistory (clearHistory s now mid)
     = messageHistory (construct (config s) [] NoItem (writable s) now mid)
   \<and> rendered (clearHistory s now mid)
     = rendered (construct (config s) [] NoItem (writable s) now mid)
   \<and> messageHistory (refreshChat s now mid) = messageHistory (clearHistory s now mid)
   \<and> rendered (refreshChat s now mid) = rendered (clearHistory s now mid)
   \<and> storage (refreshChat s now mid) = storage (clearHistory s now mid)
   \<and> isOpen (refreshChat s now mid) = isOpen s
   \<and> isTyping (refreshChat s now mid) = isTyping s
   \<and> inputValue (refreshChat s now mid) = inputValue s
   \<and> sendDisabled (refreshChat s now mid) = sendDisabled s
   \<and> config (refreshChat s now mid) = config s
   \<and> writable (refreshChat s now mid) = writable s
   \<and> timers (refreshChat s now mid) = timers s
   \<and> resolverCalls (refreshChat s now mid) = resolverCalls s
   \<and> tracked (refreshChat s now mid) = tracked s @ [(''chatbot_refreshed'', None)]"
  by (simp add: clearHistory_def refreshChat_def trackEvent_def addMessage_def
      saveMessageHistory_def Let_def sliceLast_def construct_def init_def
      loadMessageHistory_def blank_def messageObject_def)

lemma toISOString_50: "toISOString 50 = ''1970-01-01T00:00:00.050Z''"
  by code_simp

text \<open>A controller with two messages in its history and on the page and a reply
  pending, reset at instant 50.\<close>

theorem clearHistory_fresh_start_witness:
  "writable ((blank defaultConfig [] NoItem True)
       \<lparr>messageHistory := [messageObject ''bot'' (JStr ''Hello!'') 1 ''a'',
                            messageObject ''user'' (JStr ''hi'') 2 ''b''],
         rendered := [messageObject ''bot'' (JStr ''Hello!'') 1 ''a'',
                      messageObject ''user'' (JStr ''hi'') 2 ''b''],
         timers := [BotReply (JStr ''Hi! What can I help you with?'')]\<rparr>)
   \<and> messageHistory (refreshChat ((blank defaultConfig [] NoItem True)
       \<lparr>messageHistory := [messageObject ''bot'' (JStr ''Hello!'') 1 ''a'',
                            messageObject ''user'' (JStr ''hi'') 2 ''b''],
         rendered := [messageObject ''bot'' (JStr ''Hello!'') 1 ''a'',
                      messageObject ''user'' (JStr ''hi'') 2 ''b''],
         timers := [BotReply (JStr ''Hi! What can I help you with?'')]\<rparr>) 50 ''c'')
     = [JObj [(''sender'', JStr ''bot''),
              (''content'', JStr ''Hello! How can I help you today?''),
              (''timestamp'', JDate 50), (''id'', JStr ''c'')]]
   \<and> storage (refreshChat ((blank defaultConfig [] NoItem True)
       \<lparr>messageHistory := [messageObject ''bot'' (JStr ''Hello!'') 1 ''a'',
                            messageObject ''user'' (JStr ''hi'') 2 ''b''],
         rendered := [messageObject ''bot'' (JStr ''Hello!'') 1 ''a'',
                      messageObject ''user'' (JStr ''hi'') 2 ''b''],
         timers := [BotReply (JStr ''Hi! What can I help you with?'')]\<rparr>) 50 ''c'')
     = Parsed (Some 50)
         (Some [JObj [(''sender'', JStr ''bot''),
                      (''content'', JStr ''Hello! How can I help you today?''),
                      (''timestamp'', JStr ''1970-01-01T00:00:00.050Z''), (''id'', JStr ''c'')]])
   \<and> timers (refreshChat ((blank defaultConfig [] NoItem True)
       \<lparr>messageHistory := [messageObject ''bot'' (JStr ''Hello!'') 1 ''a'',
                            messageObject ''user'' (JStr ''hi'') 2 ''b''],
         rendered := [messageObject ''bot'' (JStr ''Hello!'') 1 ''a'',
                      messageObject ''user'' (JStr ''hi'') 2 ''b''],
         timers := [BotReply (JStr ''Hi! What can I help you with?'')]\<rparr>) 50 ''c'')
     = [BotReply (JStr ''Hi! What can I help you with?'')]"
proof -
  let ?s = "(blank defaultConfig [] NoItem True)
       \<lparr>messageHistory := [messageObject ''bot'' (JStr ''Hello!'') 1 ''a'',
                            messageObject ''user'' (JStr ''hi'') 2 ''b''],
         rendered := [messageObject ''bot'' (JStr ''Hello!'') 1 ''a'',
                      messageObject ''user'' (JStr ''hi'') 2 ''b''],
         timers := [BotReply (JStr ''Hi! What can I help you with?'')]\<rparr>"
  have w: "writable ?s" by (simp add: blank_def)
  have c: "welcomeMessage (config ?s) = ''Hello! How can I help you today?''"
    by (simp add: blank_def defaultConfig_def)
  have t: "timers ?s = [BotReply (JStr ''Hi! What can I help you with?'')]" by simp
  note th = clearHistory_fresh_start[of ?s 50 "''c''"]
  from th have h1: "messageHistory (refreshChat ?s 50 ''c'')
      = [JObj [(''sender'', JStr ''bot''), (''content'', JStr (welcomeMessage (config ?s))),
               (''timestamp'', JDate 50), (''id'', JStr ''c'')]]"
    by metis
  from th w have h2: "storage (refreshChat ?s 50 ''c'')
      = Parsed (Some 50)
          (Some [JObj [(''sender'', JStr ''bot''), (''content'', JStr (welcomeMessage (config ?s))),
                       (''timestamp'', JStr (toISOString 50)), (''id'', JStr ''c'')]])"
    by metis
  from th have h3: "timers (refreshChat ?s 50 ''c'') = timers ?s" by blast
  from w h1 h2 h3 show ?thesis unfolding c t toISOString_50 by blast
qed

text \<open>
  C8 as stated fails where it equates the state after the reset with a fresh
  initialisation. A new controller, the input \<open>hello\<close> sent, then the reset before the
  reply timer fires: the reply is still pending and the event of the send is still
  tracked, where a freshly constructed controller has no timer and no event; when the
  timer fires, the history is the welcome message followed by the reply to the message
  that was cleared.
\<close>

theorem reset_keeps_pending_reply_counterexample:
  "timers (refreshChat
       (sendMessage (setInput (construct defaultConfig [] NoItem True 0 ''m0'') ''hello'')
          FetchRejected 10 ''m1'') 20 ''m2'')
     = [BotReply (JStr ''Hello there! How can I assist you today?'')]
   \<and> timers (construct defaultConfig [] NoItem True 20 ''m2'') = []
   \<and> tracked (refreshChat
       (sendMessage (setInput (construct defaultConfig [] NoItem True 0 ''m0'') ''hello'')
          FetchRejected 10 ''m1'') 20 ''m2'')
     = [(''message_sent'', Some ''hello''), (''chatbot_refreshed'', None)]
   \<and> tracked (construct defaultConfig [] NoItem True 20 ''m2'') = []
   \<and> map senderContent (messageHistory (fireTimer (refreshChat
       (sendMessage (setInput (construct defaultConfig [] NoItem True 0 ''m0'') ''hello'')
          FetchRejected 10 ''m1'') 20 ''m2'') 0 600 ''m3''))
     = [(Inr (Some (JStr ''bot'')), Inr (Some (JStr ''Hello! How can I help you today?''))),
        (Inr (Some (JStr ''bot'')), Inr (Some (JStr ''Hello there! How can I assist you today?'')))]"
  by (simp add: fireTimer_def refreshChat_def clearHistory_def sendMessage_def setInput_def
      construct_def init_def loadMessageHistory_def blank_def addMessage_def
      saveMessageHistory_def updateSendButton_def trackEvent_def showTyping_def
      hideTyping_def messageObject_def senderContent_def trim_def isWhiteSpace_def Let_def
      resolve_defs)

subsection \<open>Senders and statistics\<close>

lemma senderKnown_messageObject:
  "sender = ''user'' \<or> sender = ''bot'' \<Longrightarrow> senderKnown (messageObject sender content t mid)"
  by (auto simp: senderKnown_def messageObject_def)

lemma senderKnown_roundtrip: "senderKnown msg \<Longrightarrow> senderKnown (jsonRoundTrip msg)"
proof (cases msg)
  case (JObj kvs)
  assume "senderKnown msg"
  with JObj show ?thesis by (auto simp: senderKnown_def map_of_map_prod)
qed (auto simp: senderKnown_def)

lemma addMessage_appends:
  "messageHistory (addMessage s sender content ts now mid)
     = messageHistory s @ [messageObject sender content (case ts of None \<Rightarrow> now | Some t \<Rightarrow> t) mid]"
  by (simp add: addMessage_def saveMessageHistory_def Let_def)

lemma appended_known:
  "(\<exists>new. messageHistory (sendMessage s api now mid) = messageHistory s @ new
          \<and> list_all senderKnown new)
   \<and> (\<exists>new. messageHistory (fireTimer s i now mid) = messageHistory s @ new
          \<and> list_all senderKnown new)
   \<and> (\<exists>new. messageHistory (init s now mid) = messageHistory (loadMessageHistory s now) @ new
          \<and> list_all senderKnown new)
   \<and> list_all senderKnown (messageHistory (clearHistory s now mid))"
proof (intro conjI)
  show "\<exists>new. messageHistory (sendMessage s api now mid) = messageHistory s @ new
          \<and> list_all senderKnown new"
  proof (cases "trim (inputValue s) = []")
    case True
    then have "messageHistory (sendMessage s api now mid) = messageHistory s @ []"
      by (simp add: sendMessage_def)
    then show ?thesis by (intro exI[of _ "[]"]) simp
  next
    case False
    then have "messageHistory (sendMessage s api now mid)
        = messageHistory s @ [messageObject ''user'' (JStr (trim (inputValue s))) now mid]"
      by (simp add: sendMessage_def Let_def trackEvent_def hideTyping_def showTyping_def
          addMessage_appends updateSendButton_def split: sum.splits)
    moreover have "list_all senderKnown [messageObject ''user'' (JStr (trim (inputValue s))) now mid]"
      by (simp add: senderKnown_messageObject)
    ultimately show ?thesis by blast
  qed
next
  show "\<exists>new. messageHistory (fireTimer s i now mid) = messageHistory s @ new
          \<and> list_all senderKnown new"
  proof (cases "i < length (timers s)")
    case False
    then have "messageHistory (fireTimer s i now mid) = messageHistory s @ []"
      by (simp add: fireTimer_def)
    then show ?thesis by (intro exI[of _ "[]"]) simp
  next
    case True
    show ?thesis
    proof (cases "timers s ! i")
      case OpenChat
      with True have "messageHistory (fireTimer s i now mid) = messageHistory s @ []"
        by (simp add: fireTimer_def Let_def openChat_def trackEvent_def)
      then show ?thesis by (intro exI[of _ "[]"]) simp
    next
      case (BotReply response)
      with True have "messageHistory (fireTimer s i now mid)
          = messageHistory s @ [messageObject ''bot'' response now mid]"
        by (simp add: fireTimer_def Let_def addMessage_appends)
      moreover have "list_all senderKnown [messageObject ''bot'' response now mid]"
        by (simp add: senderKnown_messageObject)
      ultimately show ?thesis by blast
    qed
  qed
next
  let ?l = "loadMessageHistory s now"
  show "\<exists>new. messageHistory (init s now mid) = messageHistory ?l @ new \<and> list_all senderKnown new"
  proof (cases "messageHistory ?l = []")
    case True
    then have "messageHistory (init s now mid)
        = messageHistory ?l @ [messageObject ''bot'' (JStr (welcomeMessage (config ?l))) now mid]"
      by (simp add: init_def Let_def addMessage_appends)
    moreover have "list_all senderKnown [messageObject ''bot'' (JStr (welcomeMessage (config ?l))) now mid]"
      by (simp add: senderKnown_messageObject)
    ultimately show ?thesis by blast
  next
    case False
    then have "messageHistory (init s now mid) = messageHistory ?l @ []"
      by (simp add: init_def Let_def)
    then show ?thesis by (intro exI[of _ "[]"]) simp
  qed
next
  show "list_all senderKnown (messageHistory (clearHistory s now mid))"
    by (simp add: clearHistory_def Let_def addMessage_appends saveMessageHistory_def
        senderKnown_messageObject)
qed

lemma known_save: "knownSenders s \<Longrightarrow> knownSenders (saveMessageHistory s now)"
  using set_sliceLast[of 50 "messageHistory s"]
  by (auto simp: knownSenders_def saveMessageHistory_def list_all_iff senderKnown_roundtrip)

lemma known_add:
  assumes "knownSenders s" and "sender = ''user'' \<or> sender = ''bot''"
  shows "knownSenders (addMessage s sender content ts now mid)"
proof -
  let ?m = "messageObject sender content (case ts of None \<Rightarrow> now | Some t \<Rightarrow> t) mid"
  have "knownSenders (s\<lparr>messageHistory := messageHistory s @ [?m]\<rparr>)"
    using assms senderKnown_messageObject[OF assms(2)] by (simp add: knownSenders_def)
  then have "knownSenders (saveMessageHistory (s\<lparr>messageHistory := messageHistory s @ [?m]\<rparr>) now)"
    by (rule known_save)
  then show ?thesis by (simp add: addMessage_def Let_def knownSenders_def)
qed

lemma known_load: "knownSenders s \<Longrightarrow> knownSenders (loadMessageHistory s now)"
  by (auto simp: knownSenders_def loadMessageHistory_def renderMessageHistory_def
      split: stored_item.splits option.splits prod.splits)

lemma known_init:
  assumes "knownSenders s"
  shows "knownSenders (init s now mid)"
proof -
  from assms have l: "knownSenders (loadMessageHistory s now)" by (rule known_load)
  then have "knownSenders ((loadMessageHistory s now)
      \<lparr>timers := timers (loadMessageHistory s now) @ [OpenChat]\<rparr>)"
    by (simp add: knownSenders_def)
  with l show ?thesis by (simp add: init_def Let_def known_add)
qed

lemma known_construct:
  "storedKnown stored \<Longrightarrow> knownSenders (construct cfg nodes stored w now mid)"
  unfolding construct_def by (rule known_init) (simp add: knownSenders_def blank_def)

lemma known_track: "knownSenders s \<Longrightarrow> knownSenders (trackEvent s n d)"
  by (simp add: knownSenders_def trackEvent_def)

lemma known_open: "knownSenders s \<Longrightarrow> knownSenders (openChat s)"
  by (simp add: knownSenders_def openChat_def trackEvent_def)

lemma known_close: "knownSenders s \<Longrightarrow> knownSenders (closeChat s)"
  by (simp add: knownSenders_def closeChat_def trackEvent_def)

lemma known_setInput: "knownSenders s \<Longrightarrow> knownSenders (setInput s v)"
  by (simp add: knownSenders_def setInput_def updateSendButton_def Let_def)

lemma known_send:
  assumes "knownSenders s"
  shows "knownSenders (sendMessage s api now mid)"
proof (cases "trim (inputValue s) = []")
  case True
  with assms show ?thesis by (simp add: sendMessage_def)
next
  case False
  let ?s1 = "updateSendButton (s\<lparr>inputValue := []\<rparr>)"
  have "knownSenders ?s1"
    using assms by (simp add: knownSenders_def updateSendButton_def Let_def)
  then have "knownSenders (addMessage ?s1 ''user'' (JStr (trim (inputValue s))) None now mid)"
    by (rule known_add) simp
  then show ?thesis using False
    by (simp add: sendMessage_def Let_def knownSenders_def trackEvent_def hideTyping_def
        showTyping_def split: sum.splits)
qed

lemma known_fire:
  assumes "knownSenders s"
  shows "knownSenders (fireTimer s i now mid)"
proof -
  let ?s' = "s\<lparr>timers := take i (timers s) @ drop (Suc i) (timers s)\<rparr>"
  have k: "knownSenders ?s'" using assms by (simp add: knownSenders_def)
  show ?thesis using assms k known_open[OF k] known_add[OF k]
    by (simp add: fireTimer_def Let_def split: timer.splits)
qed

lemma known_clear:
  assumes "knownSenders s"
  shows "knownSenders (clearHistory s now mid)"
proof -
  from assms have "knownSenders (s\<lparr>messageHistory := [], rendered := []\<rparr>)"
    by (simp add: knownSenders_def)
  then have "knownSenders (saveMessageHistory (s\<lparr>messageHistory := [], rendered := []\<rparr>) now)"
    by (rule known_save)
  then show ?thesis by (simp add: clearHistory_def Let_def known_add)
qed

lemma reachable_known:
  "reachableFrom stored s \<Longrightarrow> storedKnown stored \<Longrightarrow> knownSenders s"
proof (induction rule: reachableFrom.induct)
  case (start stored cfg nodes w now mid)
  then show ?case by (simp add: known_construct)
next
  case (send stored s api now mid)
  then show ?case by (simp add: known_send)
next
  case (timer stored s i now mid)
  then show ?case by (simp add: known_fire)
next
  case (refresh stored s now mid)
  then show ?case by (simp add: refreshChat_def known_track known_clear)
next
  case (toggle stored s)
  then show ?case by (simp add: toggleChat_def known_open known_close)
next
  case (opened stored s)
  then show ?case by (simp add: known_open)
next
  case (closed stored s)
  then show ?case by (simp add: known_close)
next
  case (typed stored s v)
  then show ?case by (simp add: known_setInput)
next
  case (configured stored s cfg)
  then show ?case by (simp add: knownSenders_def)
next
  case (quota stored s w)
  then show ?case by (simp add: knownSenders_def)
next
  case (reload stored s cfg nodes w now mid)
  then have "storedKnown (storage s)" by (simp add: knownSenders_def)
  then show ?case by (rule known_construct)
qed

lemma filterSender_known:
  "list_all senderKnown h \<Longrightarrow>
   \<exists>us bs. filterSender ''user'' h = Inr us \<and> filterSender ''bot'' h = Inr bs
           \<and> length h = length us + length bs"
proof (induction h)
  case Nil
  then show ?case by simp
next
  case (Cons m h)
  then obtain us bs where ih: "filterSender ''user'' h = Inr us"
    "filterSender ''bot'' h = Inr bs" "length h = length us + length bs" by auto
  from Cons.prems have "senderKnown m" by simp
  then show ?case using ih by (auto simp: senderKnown_def)
qed

text \<open>
  C10 (amended). Every message that a controller operation appends to the history (the
  user's message in \<open>sendMessage\<close>, the bot reply when its timer fires, the welcome
  message of \<open>init\<close> and of \<open>clearHistory\<close>) has the sender \<open>user\<close> or \<open>bot\<close>. Consequently,
  when the store at the controller's construction holds no snapshot, or a snapshot whose
  messages all have the sender \<open>user\<close> or \<open>bot\<close>, then in every state the controller
  reaches (through sending, replies arriving, resets, opening, closing, typing,
  reconfiguration and reloads) every message of the history and of the stored snapshot
  has one of the two senders, and \<open>getStats\<close> returns statistics with
  \<open>totalMessages = userMessages + botMessages\<close>.
\<close>

theorem reachable_senders_and_stats:
  assumes "reachableFrom stored s" and "storedKnown stored"
  shows "list_all senderKnown (messageHistory s)
       \<and> storedKnown (storage s)
       \<and> (\<exists>st. getStats s = Inr st \<and> totalMessages st = userMessages st + botMessages st)
       \<and> (\<exists>new. messageHistory (sendMessage s api now mid) = messageHistory s @ new
              \<and> list_all senderKnown new)
       \<and> (\<exists>new. messageHistory (fireTimer s i now mid) = messageHistory s @ new
              \<and> list_all senderKnown new)
       \<and> (\<exists>new. messageHistory (init s now mid) = messageHistory (loadMessageHistory s now) @ new
              \<and> list_all senderKnown new)
       \<and> list_all senderKnown (messageHistory (clearHistory s now mid))"
proof -
  from assms have k: "list_all senderKnown (messageHistory s)" and k': "storedKnown (storage s)"
    using reachable_known by (simp_all add: knownSenders_def)
  from filterSender_known[OF k] obtain us bs where
    "filterSender ''user'' (messageHistory s) = Inr us"
    "filterSender ''bot'' (messageHistory s) = Inr bs"
    "length (messageHistory s) = length us + length bs" by blast
  then have "\<exists>st. getStats s = Inr st \<and> totalMessages st = userMessages st + botMessages st"
    by (simp add: getStats_def)
  with k k' appended_known[of s api now mid i] show ?thesis by blast
qed

text \<open>A new controller on an empty store, the input \<open>hello\<close> sent, the reply timer
  fired: welcome message, user message, bot reply.\<close>

theorem reachable_senders_and_stats_witness:
  "reachableFrom NoItem (fireTimer (sendMessage
        (setInput (construct defaultConfig [] NoItem True 0 ''m0'') ''hello'')
        FetchRejected 10 ''m1'') 0 600 ''m2'')
   \<and> storedKnown NoItem
   \<and> map (\<lambda>m. getProp m ''sender'')
        (messageHistory (fireTimer (sendMessage
           (setInput (construct defaultConfig [] NoItem True 0 ''m0'') ''hello'')
           FetchRejected 10 ''m1'') 0 600 ''m2''))
      = [Inr (Some (JStr ''bot'')), Inr (Some (JStr ''user'')), Inr (Some (JStr ''bot''))]
   \<and> (\<exists>st. getStats (fireTimer (sendMessage
           (setInput (construct defaultConfig [] NoItem True 0 ''m0'') ''hello'')
           FetchRejected 10 ''m1'') 0 600 ''m2'') = Inr st
           \<and> totalMessages st = userMessages st + botMessages st)"
proof -
  let ?s = "fireTimer (sendMessage
        (setInput (construct defaultConfig [] NoItem True 0 ''m0'') ''hello'')
        FetchRejected 10 ''m1'') 0 600 ''m2''"
  have r: "reachableFrom NoItem ?s"
    by (intro reachableFrom.timer reachableFrom.send reachableFrom.typed reachableFrom.start)
  have n: "storedKnown NoItem" by simp
  have m: "map (\<lambda>m. getProp m ''sender'') (messageHistory ?s)
      = [Inr (Some (JStr ''bot'')), Inr (Some (JStr ''user'')), Inr (Some (JStr ''bot''))]"
    by (simp add: fireTimer_def sendMessage_def setInput_def construct_def init_def
        loadMessageHistory_def blank_def addMessage_def saveMessageHistory_def
        updateSendButton_def trackEvent_def showTyping_def hideTyping_def messageObject_def
        trim_def isWhiteSpace_def Let_def resolve_defs)
  from reachable_senders_and_stats[OF r n] r n m show ?thesis by blast
qed

text \<open>
  C10 as stated fails for a controller constructed on a store that holds a fresh
  snapshot with a foreign message, here \<^verbatim>\<open>{"timestamp": "1970-01-01T00:00:00.000Z",
  "messages": [{}]}\<close> read one second later: the constructor adopts it, the history has one
  message, and \<open>getStats\<close> counts no user message and no bot message.
\<close>

theorem foreign_snapshot_stats_counterexample:
  "reachableFrom (Parsed (Some 0) (Some [JObj []]))
     (construct defaultConfig [] (Parsed (Some 0) (Some [JObj []])) True 1000 ''m0'')
   \<and> getStats (construct defaultConfig [] (Parsed (Some 0) (Some [JObj []])) True 1000 ''m0'')
     = Inr \<lparr> totalMessages = 1, userMessages = 0, botMessages = 0,
             firstMessage = None, lastMessage = None, statsIsOpen = False \<rparr>"
proof -
  have "reachableFrom (Parsed (Some 0) (Some [JObj []]))
     (construct defaultConfig [] (Parsed (Some 0) (Some [JObj []])) True 1000 ''m0'')"
    by (rule reachableFrom.start)
  moreover have "getStats
      (construct defaultConfig [] (Parsed (Some 0) (Some [JObj []])) True 1000 ''m0'')
     = Inr \<lparr> totalMessages = 1, userMessages = 0, botMessages = 0,
             firstMessage = None, lastMessage = None, statsIsOpen = False \<rparr>"
    by (simp add: getStats_def optTimestamp_def construct_def init_def loadMessageHistory_def
        daysDiff_def blank_def renderMessageHistory_def createMessageElement_def
        defaultConfig_def)
  ultimately show ?thesis by blast
qed

end
